theory Spec2Isabelle
  imports Complex_Main "HOL-Library.Sublist"
begin

section \<open>Python strings\<close>

text \<open>
  A Python \<open>str\<close> is modelled as a \<^typ>\<open>string\<close>, one \<^typ>\<open>char\<close> per code point
  (code points 0 to 255).  The functions of this section are the methods of \<open>str\<close> that the
  generators call; each follows the behaviour of CPython on such strings.
\<close>

definition whitespace_chars :: "char list" where
  \<comment> \<open>the code points below 256 for which \<open>str.isspace\<close> holds\<close>
  "whitespace_chars =
     [CHR 0x09, CHR 0x0A, CHR 0x0B, CHR 0x0C, CHR 0x0D, CHR 0x1C, CHR 0x1D, CHR 0x1E,
      CHR 0x1F, CHR 0x20, CHR 0x85, CHR 0xA0]"

definition isspace :: "char \<Rightarrow> bool" where
  "isspace c = (c \<in> set whitespace_chars)"

definition str_strip :: "string \<Rightarrow> string" where
  \<comment> \<open>\<open>s.strip()\<close>\<close>
  "str_strip s = rev (dropWhile isspace (rev (dropWhile isspace s)))"

function str_split :: "string \<Rightarrow> string list" where
  \<comment> \<open>\<open>s.split()\<close>: the maximal runs of non-whitespace characters\<close>
  "str_split [] = []"
| "str_split (c # cs) =
     (if isspace c then str_split cs
      else (c # takeWhile (\<lambda>x. \<not> isspace x) cs) # str_split (dropWhile (\<lambda>x. \<not> isspace x) cs))"
  by pat_completeness auto
termination
  by (relation "measure length") (auto simp: less_Suc_eq_le length_dropWhile_le)

fun str_join :: "string \<Rightarrow> string list \<Rightarrow> string" where
  \<comment> \<open>\<open>sep.join(parts)\<close>\<close>
  "str_join sep [] = []"
| "str_join sep [p] = p"
| "str_join sep (p # q # ps) = p @ sep @ str_join sep (q # ps)"

fun str_contains :: "string \<Rightarrow> string \<Rightarrow> bool" where
  \<comment> \<open>\<open>sub in s\<close>\<close>
  "str_contains [] sub = (sub = [])"
| "str_contains (c # cs) sub = (prefix sub (c # cs) \<or> str_contains cs sub)"

fun replace_scan :: "string \<Rightarrow> string \<Rightarrow> string \<Rightarrow> string" where
  \<comment> \<open>the left-to-right scan of \<open>s.replace(old, new)\<close> for a non-empty \<open>old\<close>:
      a match is replaced and the scan resumes behind it, so matches do not overlap
      and the inserted text is not scanned\<close>
  "replace_scan old new [] = []"
| "replace_scan old new (c # cs) =
     (if old \<noteq> [] \<and> prefix old (c # cs)
      then new @ replace_scan old new (drop (length old) (c # cs))
      else c # replace_scan old new cs)"

definition str_replace :: "string \<Rightarrow> string \<Rightarrow> string \<Rightarrow> string" where
  \<comment> \<open>\<open>s.replace(old, new)\<close>; an empty \<open>old\<close> matches before every character and at the end\<close>
  "str_replace old new s =
     (if old = [] then new @ concat (map (\<lambda>c. c # new) s) else replace_scan old new s)"

fun str_replace1 :: "string \<Rightarrow> string \<Rightarrow> string \<Rightarrow> string" where
  \<comment> \<open>\<open>s.replace(old, new, 1)\<close>: only the first match is replaced\<close>
  "str_replace1 old new [] = (if old = [] then new else [])"
| "str_replace1 old new (c # cs) =
     (if prefix old (c # cs) then new @ drop (length old) (c # cs)
      else c # str_replace1 old new cs)"

function str_split_sep :: "string \<Rightarrow> string \<Rightarrow> string list" where
  \<comment> \<open>\<open>s.split(sep)\<close> for a non-empty \<open>sep\<close>: the pieces between the occurrences of
      \<open>sep\<close>, found left to right; empty pieces are kept\<close>
  "str_split_sep sep [] = [[]]"
| "str_split_sep sep (c # cs) =
     (if sep \<noteq> [] \<and> prefix sep (c # cs)
      then [] # str_split_sep sep (drop (length sep) (c # cs))
      else (c # hd (str_split_sep sep cs)) # tl (str_split_sep sep cs))"
  by pat_completeness auto
termination
  by (relation "measure (\<lambda>(sep, s). length s)") auto

definition isword :: "char \<Rightarrow> bool" where
  \<comment> \<open>the code points below 256 that the regular expression \<open>\w\<close> matches in a \<open>str\<close>
      pattern: letters, digits and numeric characters, and the underscore\<close>
  "isword c =
     (let n = (of_char c :: nat) in
      (48 \<le> n \<and> n \<le> 57) \<or> (65 \<le> n \<and> n \<le> 90) \<or> n = 95 \<or> (97 \<le> n \<and> n \<le> 122) \<or>
      n = 170 \<or> n = 178 \<or> n = 179 \<or> n = 181 \<or> n = 185 \<or> n = 186 \<or>
      (188 \<le> n \<and> n \<le> 190) \<or> (192 \<le> n \<and> n \<le> 214) \<or> (216 \<le> n \<and> n \<le> 246) \<or>
      248 \<le> n)"

definition char_lower :: "char \<Rightarrow> char" where
  \<comment> \<open>\<open>c.lower()\<close> on a code point below 256\<close>
  "char_lower c =
     (let n = (of_char c :: nat) in
      if (65 \<le> n \<and> n \<le> 90) \<or> (192 \<le> n \<and> n \<le> 222 \<and> n \<noteq> 215) then char_of (n + 32) else c)"

function findall_placeholders :: "string \<Rightarrow> string list" where
  \<comment> \<open>\<open>re.findall(r"\{(\w+)\}", template)\<close>: the names of the non-overlapping matches, left
      to right.  At a \<open>{\<close> the greedy \<open>\w+\<close> takes the longest run of word characters, and
      the match succeeds iff the run is not empty and a \<open>}\<close> follows it\<close>
  "findall_placeholders [] = []"
| "findall_placeholders (c # cs) =
     (if c = CHR ''{'' \<and> takeWhile isword cs \<noteq> [] \<and> dropWhile isword cs \<noteq> []
         \<and> hd (dropWhile isword cs) = CHR ''}''
      then takeWhile isword cs # findall_placeholders (tl (dropWhile isword cs))
      else findall_placeholders cs)"
  by pat_completeness auto
termination
proof (relation "measure length")
  fix c :: char and cs :: string
  assume "c = CHR ''{'' \<and> takeWhile isword cs \<noteq> [] \<and> dropWhile isword cs \<noteq> []
            \<and> hd (dropWhile isword cs) = CHR ''}''"
  have "length (tl (dropWhile isword cs)) \<le> length (dropWhile isword cs)"
    by simp
  also have "\<dots> \<le> length cs"
    by (rule length_dropWhile_le)
  finally show "(tl (dropWhile isword cs), c # cs) \<in> measure length"
    by simp
qed simp_all


section \<open>The pseudo-random generator\<close>

text \<open>
  Every generator owns one \<open>random.Random(seed)\<close>.  Its state is modelled as the list of
  raw draws still to come (an exhausted list keeps returning 0); each library call
  consumes one draw and maps it into the range of its result, so that every value the
  library can return is returned for some draw.  Floating-point numbers are modelled as
  rationals: \<open>random()\<close> returns a multiple of \<open>2\<^sup>-\<^sup>5\<^sup>3\<close> in \<open>[0, 1)\<close>, and a literal such
  as \<open>0.7\<close> is read as the rational \<open>7/10\<close>.
\<close>

type_synonym rng = "nat list"

definition next_draw :: "rng \<Rightarrow> nat \<times> rng" where
  "next_draw g = (case g of [] \<Rightarrow> (0, []) | d # ds \<Rightarrow> (d, ds))"

definition rng_random :: "rng \<Rightarrow> rat \<times> rng" where
  \<comment> \<open>\<open>rng.random()\<close>\<close>
  "rng_random g = (let (d, g') = next_draw g in (of_nat (d mod 2 ^ 53) / 2 ^ 53, g'))"

definition randbelow :: "nat \<Rightarrow> rng \<Rightarrow> nat \<times> rng" where
  \<comment> \<open>\<open>rng._randbelow(n)\<close> for \<open>n > 0\<close>\<close>
  "randbelow n g = (let (d, g') = next_draw g in (d mod n, g'))"

definition rng_randint :: "int \<Rightarrow> int \<Rightarrow> rng \<Rightarrow> int \<times> rng" where
  \<comment> \<open>\<open>rng.randint(a, b)\<close>; the library raises \<open>ValueError\<close> unless \<open>a \<le> b\<close>\<close>
  "rng_randint a b g = (let (k, g') = randbelow (nat (b - a + 1)) g in (a + int k, g'))"

definition rng_choice :: "'a list \<Rightarrow> rng \<Rightarrow> 'a \<times> rng" where
  \<comment> \<open>\<open>rng.choice(seq)\<close>; the library raises \<open>IndexError\<close> on an empty sequence\<close>
  "rng_choice xs g = (let (k, g') = randbelow (length xs) g in (xs ! k, g'))"

fun accumulate :: "rat \<Rightarrow> rat list \<Rightarrow> rat list" where
  \<comment> \<open>\<open>itertools.accumulate(weights)\<close>, from the running total \<open>acc\<close>\<close>
  "accumulate acc [] = []"
| "accumulate acc (w # ws) = (acc + w) # accumulate (acc + w) ws"

definition bisect :: "rat list \<Rightarrow> rat \<Rightarrow> nat \<Rightarrow> nat" where
  \<comment> \<open>\<open>bisect.bisect(a, x, 0, hi)\<close> on a non-decreasing \<open>a\<close>: the number of elements of
      \<open>a[:hi]\<close> that are at most \<open>x\<close>\<close>
  "bisect a x hi = length (takeWhile (\<lambda>c. c \<le> x) (take hi a))"

definition rng_choices :: "'a list \<Rightarrow> rat list \<Rightarrow> rng \<Rightarrow> 'a \<times> rng" where
  \<comment> \<open>\<open>rng.choices(population, weights=weights, k=1)[0]\<close> for non-negative weights\<close>
  "rng_choices population weights g =
     (let cum_weights = accumulate 0 weights;
          total = last cum_weights;
          (r, g') = rng_random g
      in (population ! bisect cum_weights (r * total) (length population - 1), g'))"

primrec shuffle_from :: "nat \<Rightarrow> 'a list \<Rightarrow> rng \<Rightarrow> 'a list \<times> rng" where
  \<comment> \<open>the loop of \<open>shuffle\<close>, \<open>for i in reversed(range(1, len(x)))\<close>, from index \<open>i\<close> down\<close>
  "shuffle_from 0 x g = (x, g)"
| "shuffle_from (Suc i) x g =
     (let (j, g') = randbelow (Suc i + 1) g
      in shuffle_from i (x[Suc i := x ! j, j := x ! Suc i]) g')"

definition rng_shuffle :: "'a list \<Rightarrow> rng \<Rightarrow> 'a list \<times> rng" where
  \<comment> \<open>the list after \<open>rng.shuffle(x)\<close>\<close>
  "rng_shuffle x g = shuffle_from (length x - 1) x g"


section \<open>Data model\<close>

text \<open>
  A pattern entry of a catalog is a Python dict with the keys \<open>"correct"\<close> and \<open>"errors"\<close>
  (and \<open>"category"\<close> in the chained-command catalogs); a missing \<open>"errors"\<close> is the empty
  list.  Python dicts are association lists in insertion order.  The fields of the
  dataclass \<open>TrainingExample\<close> keep their names, with the prefix \<open>ex_\<close> where the source
  uses the same name for a local variable (\<open>shell\<close>, \<open>category\<close>, \<open>error_type\<close>,
  \<open>source\<close>, \<open>metadata\<close>); likewise the dict keys \<open>"correct"\<close>, \<open>"errors"\<close> and
  \<open>"category"\<close> of a pattern entry are the fields \<open>entry_correct\<close>, \<open>entry_errors\<close> and
  \<open>pattern_category\<close>.
\<close>

record entry =
  entry_correct :: string
  entry_errors :: "string list"

record pattern = entry +
  pattern_category :: string

record TrainingExample =
  ex_shell :: string
  incorrect_command :: string
  correct_command :: string
  ex_category :: string
  ex_error_type :: string
  ex_source :: string
  ex_metadata :: "(string \<times> string) list"

definition dict_get :: "('k \<times> 'v) list \<Rightarrow> 'k \<Rightarrow> 'v \<Rightarrow> 'v" where
  \<comment> \<open>\<open>d.get(key, default)\<close>\<close>
  "dict_get d key dflt = (case map_of d key of Some v \<Rightarrow> v | None \<Rightarrow> dflt)"

subsection \<open>The tables of \<open>base_generator.py\<close>\<close>

definition SHELL_WEIGHTS :: "(string \<times> rat) list" where
  "SHELL_WEIGHTS =
     [(''bash'', 7 / 20),
      (''zsh'', 1 / 4),
      (''powershell'', 1 / 5),
      (''cmd'', 3 / 25),
      (''fish'', 1 / 20),
      (''tcsh'', 3 / 100)]"

definition KEYBOARD_ADJACENT :: "(char \<times> string) list" where
  "KEYBOARD_ADJACENT =
     [
      (CHR ''a'', ''qwsz''), (CHR ''b'', ''vghn''), (CHR ''c'', ''xdfv''),
      (CHR ''d'', ''serfcx''), (CHR ''e'', ''wsdr''), (CHR ''f'', ''drtgcv''),
      (CHR ''g'', ''ftyhbv''), (CHR ''h'', ''gyujnb''), (CHR ''i'', ''ujko''),
      (CHR ''j'', ''huiknm''), (CHR ''k'', ''jiolm''), (CHR ''l'', ''kop''),
      (CHR ''m'', ''njk''), (CHR ''n'', ''bhjm''), (CHR ''o'', ''iklp''), (CHR ''p'', ''ol''),
      (CHR ''q'', ''wa''), (CHR ''r'', ''edft''), (CHR ''s'', ''awedxz''),
      (CHR ''t'', ''rfgy''), (CHR ''u'', ''yhji''), (CHR ''v'', ''cfgb''),
      (CHR ''w'', ''qase''), (CHR ''x'', ''zsdc''), (CHR ''y'', ''tghu''), (CHR ''z'', ''asx'')]"

definition COMMON_VARIABLES :: "(string \<times> string list) list" where
  \<open>COMMON_VARIABLES =
     [
      (''path'',
        [
         ''mydir'', ''project'', ''src'', ''docs'', ''test'', ''build'', ''dist'', ''tmp'',
         ''app'', ''lib'', ''bin'', ''config'', ''scripts'', ''utils'', ''core'', ''api'',
         ''frontend'', ''backend'', ''server'', ''client'', ''shared'', ''common'', ''assets'',
         ''static'', ''public'', ''private'', ''internal'', ''external'',
         ''/home/user/project'', ''/var/log'', ''~/Documents'', ''./src/components'',
         ''/opt/app'', ''/etc/nginx'', ''/usr/local/bin'', ''~/projects/myapp'',
         ''./packages/core'', ''../shared/utils'', ''node_modules'', ''vendor'', ''migrations'',
         ''seeds'', ''fixtures'', ''templates'', ''views'', ''models'', ''controllers'',
         ''services'', ''repositories'', ''handlers'', ''middleware'']),
      (''file'',
        [
         ''file.txt'', ''data.json'', ''config.yaml'', ''README.md'', ''script.py'',
         ''main.go'', ''index.js'', ''app.ts'', ''Makefile'', ''Dockerfile'', ''package.json'',
         ''requirements.txt'', ''setup.py'', ''pyproject.toml'', ''Cargo.toml'', ''go.mod'',
         ''tsconfig.json'', ''webpack.config.js'', ''.env'', ''.gitignore'', ''LICENSE'',
         ''CHANGELOG.md'', ''server.js'', ''handler.py'', ''utils.ts'', ''helpers.rb'',
         ''database.sql'', ''schema.prisma'', ''docker-compose.yml'', ''nginx.conf'',
         ''app.py'', ''main.rs'', ''lib.rs'', ''mod.rs'', ''index.html'', ''styles.css'',
         ''test_main.py'', ''spec.ts'', ''benchmark.go'', ''Gemfile'', ''composer.json'']),
      (''package'',
        [
         ''numpy'', ''pandas'', ''requests'', ''flask'', ''django'', ''fastapi'', ''pytest'',
         ''react'', ''express'', ''lodash'', ''axios'', ''moment'', ''typescript'', ''webpack'',
         ''vim'', ''htop'', ''curl'', ''jq'', ''git'', ''docker'', ''kubernetes'',
         ''terraform'', ''boto3'', ''sqlalchemy'', ''celery'', ''redis'', ''pytest-cov'',
         ''black'', ''mypy'', ''eslint'', ''prettier'', ''jest'', ''mocha'', ''chai'',
         ''sinon'', ''enzyme'', ''tensorflow'', ''pytorch'', ''scikit-learn'', ''matplotlib'',
         ''seaborn'', ''gin'', ''echo'', ''fiber'', ''actix-web'', ''tokio'', ''serde'',
         ''clap'', ''spring-boot'', ''hibernate'', ''junit'', ''mockito'', ''gradle'', ''maven'']),
      (''branch'',
        [
         ''main'', ''master'', ''develop'', ''dev'', ''staging'', ''production'', ''release'',
         ''feature/new-feature'', ''feature/auth'', ''feature/api'', ''feature/ui'',
         ''feature/payment'', ''feature/search'', ''feature/notifications'',
         ''bugfix/fix-issue'', ''bugfix/login'', ''bugfix/memory-leak'', ''bugfix/typo'',
         ''hotfix/security'', ''hotfix/critical'', ''hotfix/performance'', ''release/v1.0'',
         ''release/v2.0'', ''release/v1.2.3'', ''release/2024-01'', ''experiment/ml-model'',
         ''test/integration'', ''ci/pipeline'', ''docs/api'']),
      (''message'',
        [
         ''Initial commit'', ''Fix bug'', ''Add feature'', ''Update docs'', ''Refactor code'',
         ''Fix typo'', ''WIP'', ''Merge branch'', ''Hotfix'', ''Release v1.0'',
         ''Add unit tests'', ''Fix linting errors'', ''Update dependencies'',
         ''Improve performance'', ''Add error handling'', ''Fix security issue'',
         ''Add logging'', ''Clean up code'', ''Remove dead code'', ''Add comments'',
         ''Fix CI pipeline'', ''Update README'', ''Add Docker support'', ''Fix build'',
         ''Implement auth'', ''Add API endpoint'', ''Fix database query'', ''Optimize query'']),
      (''pattern'',
        [
         ''*.py'', ''*.txt'', ''*.js'', ''*.ts'', ''*.go'', ''*.rs'', ''*.java'', ''*.rb'',
         ''*.json'', ''*.yaml'', ''*.yml'', ''*.md'', ''*.html'', ''*.css'', ''*.scss'',
         ''error'', ''TODO'', ''FIXME'', ''BUG'', ''HACK'', ''XXX'', ''NOTE'', ''WARNING'',
         ''import'', ''function'', ''class'', ''def '', ''const '', ''let '', ''var '',
         ''async'', ''await'', ''return'', ''throw'', ''catch'', ''try'', ''except'',
         ''password'', ''secret'', ''api_key'', ''token'', ''debug'', ''console.log'']),
      (''url'',
        [
         ''https://example.com'', ''https://api.github.com'', ''http://localhost:8080'',
         ''https://google.com'', ''https://npmjs.com'', ''https://pypi.org'',
         ''http://localhost:3000'', ''http://localhost:5000'', ''http://127.0.0.1:8000'',
         ''https://api.stripe.com'', ''https://s3.amazonaws.com'', ''https://cdn.example.com'',
         ''https://raw.githubusercontent.com/user/repo/main/file.txt'',
         ''https://registry.npmjs.org'', ''https://hub.docker.com'']),
      (''host'',
        [
         ''localhost'', ''example.com'', ''192.168.1.1'', ''server.local'', ''prod-server'',
         ''dev-server'', ''staging-server'', ''db-server'', ''api-server'', ''web-server'',
         ''10.0.0.1'', ''172.16.0.1'', ''192.168.0.100'', ''192.168.1.50'', ''myapp.local'',
         ''test.example.com'', ''api.example.com'', ''db.example.com'',
         ''ec2-user@aws-instance'', ''admin@server.company.com'']),
      (''user'',
        [
         ''root'', ''admin'', ''user'', ''deploy'', ''ubuntu'', ''ec2-user'', ''centos'',
         ''www-data'', ''nginx'', ''postgres'', ''mysql'', ''redis'', ''jenkins'', ''circleci'',
         ''github-actions'', ''developer'', ''devops'', ''sysadmin'']),
      (''container'',
        [
         ''nginx'', ''postgres'', ''redis'', ''app'', ''web'', ''api'', ''worker'',
         ''scheduler'', ''mongo'', ''mysql'', ''mariadb'', ''elasticsearch'', ''kibana'',
         ''grafana'', ''prometheus'', ''rabbitmq'', ''kafka'', ''zookeeper'', ''consul'',
         ''vault'', ''jenkins'', ''gitlab'', ''nexus'', ''sonarqube'', ''traefik'', ''haproxy'']),
      (''image'',
        [
         ''nginx:latest'', ''nginx:1.25'', ''nginx:alpine'', ''python:3.11'', ''python:3.12'',
         ''python:3.11-slim'', ''python:3.11-alpine'', ''node:20'', ''node:20-alpine'',
         ''node:18-slim'', ''postgres:16'', ''postgres:15-alpine'', ''mysql:8'', ''redis:7'',
         ''redis:alpine'', ''mongo:7'', ''ubuntu:22.04'', ''ubuntu:24.04'', ''alpine:3.19'',
         ''debian:bookworm'', ''golang:1.21'', ''rust:1.75'']),
      (''process'',
        [
         ''nginx'', ''python'', ''node'', ''java'', ''docker'', ''postgres'', ''mysql'',
         ''redis'', ''apache2'', ''httpd'', ''gunicorn'', ''uvicorn'', ''pm2'', ''supervisord'',
         ''systemd'', ''cron'', ''sshd'', ''mongod'', ''elasticsearch'', ''kafka'']),
      (''pid'',
        [
         ''1000'', ''1123'', ''1246'', ''1369'', ''1492'', ''1615'', ''1738'', ''1861'',
         ''1984'', ''2107'', ''2230'', ''2353'', ''2476'', ''2599'', ''2722'', ''2845'',
         ''2968'', ''3091'', ''3214'', ''3337'', ''3460'', ''3583'', ''3706'', ''3829'',
         ''3952'', ''4075'', ''4198'', ''4321'', ''4444'', ''4567'', ''4690'', ''4813'',
         ''4936'', ''5059'', ''5182'', ''5305'', ''5428'', ''5551'', ''5674'', ''5797'',
         ''5920'', ''6043'', ''6166'', ''6289'', ''6412'', ''6535'', ''6658'', ''6781'',
         ''6904'', ''7027'', ''7150'', ''7273'', ''7396'', ''7519'', ''7642'', ''7765'',
         ''7888'', ''8011'', ''8134'', ''8257'', ''8380'', ''8503'', ''8626'', ''8749'',
         ''8872'', ''8995'', ''9118'', ''9241'', ''9364'', ''9487'', ''9610'', ''9733'',
         ''9856'', ''9979'']),
      (''n'',
        [
         ''1'', ''3'', ''5'', ''10'', ''15'', ''20'', ''25'', ''50'', ''100'', ''200'', ''500'',
         ''1000'']),
      (''size'',
        [
         ''10'', ''50'', ''100'', ''500'', ''1024'', ''2048'', ''4096'', ''10240'']),
      (''service'',
        [
         ''nginx'', ''docker'', ''ssh'', ''postgresql'', ''mysql'', ''redis'', ''mongodb'',
         ''elasticsearch'', ''rabbitmq'', ''kafka'', ''apache2'', ''httpd'', ''cron'',
         ''systemd-journald'', ''NetworkManager'', ''bluetooth'', ''cups'', ''avahi-daemon'']),
      (''var'',
        [
         ''PATH'', ''HOME'', ''USER'', ''PWD'', ''SHELL'', ''TERM'', ''LANG'', ''LC_ALL'',
         ''EDITOR'', ''VISUAL'', ''PAGER'', ''TMPDIR'', ''XDG_CONFIG_HOME'', ''NODE_ENV'',
         ''PYTHONPATH'', ''GOPATH'', ''JAVA_HOME'', ''RUST_BACKTRACE'', ''DATABASE_URL'',
         ''API_KEY'', ''SECRET_KEY'', ''AWS_REGION'', ''DEBUG'']),
      (''value'',
        [
         ''test'', ''production'', ''debug'', ''/usr/local/bin'', ''true'', ''false'',
         ''development'', ''staging'', ''1'', ''0'', ''yes'', ''no'', ''enabled'', ''disabled'',
         ''/opt/app/bin'', ''~/bin'', ''/home/user/.local/bin'', ''info'', ''warning'']),
      (''name'',
        [
         ''myfunc'', ''helper'', ''process_data'', ''main'', ''run'', ''init'', ''setup'',
         ''cleanup'', ''validate'', ''transform'', ''parse'', ''format'', ''convert'',
         ''handle_request'', ''process_event'', ''send_notification'', ''update_cache'',
         ''fetch_data'', ''save_record'', ''delete_item'', ''create_user'', ''get_config'']),
      (''old'',
        [
         ''foo'', ''bar'', ''old_name'', ''deprecated'', ''legacy'', ''v1'', ''temp'', ''bak'']),
      (''new'',
        [
         ''baz'', ''qux'', ''new_name'', ''updated'', ''modern'', ''v2'', ''current'',
         ''latest'']),
      (''command'',
        [
         ''ls'', ''cat'', ''grep'', ''find'', ''echo'', ''sed'', ''awk'', ''cut'', ''sort'',
         ''uniq'']),
      (''data'',
        [
         ''{"key": "value"}'', ''{"name": "test"}'', ''key=value'', ''{"id": 1}'',
         ''{"status": "ok"}'', ''{"error": null}'', ''name=test&value=123'', ''{"items": []}'',
         ''{"count": 42}'', ''{"enabled": true}'']),
      (''drive'',
        [
         ''C'', ''D'', ''E'', ''F'', ''G'']),
      (''module'',
        [
         ''numpy'', ''pandas'', ''PSReadLine'', ''Az'', ''AzureRM'', ''ActiveDirectory'',
         ''SqlServer'', ''VMware.PowerCLI'', ''Pester'', ''ImportExcel'']),
      (''cmdlet'',
        [
         ''Get-Process'', ''Get-Service'', ''Set-Location'', ''Get-ChildItem'', ''Get-Content'',
         ''Set-Content'', ''New-Item'', ''Remove-Item'', ''Copy-Item'', ''Move-Item'',
         ''Get-Help'', ''Get-Command'', ''Invoke-WebRequest'', ''ConvertTo-Json'']),
      (''color'',
        [
         ''red'', ''green'', ''blue'', ''yellow'', ''cyan'', ''magenta'', ''white'', ''black'']),
      (''expression'',
        [
         ''1 + 1'', ''2 * 3'', ''10 / 2'', ''5 - 3'', ''2 ** 8'', ''100 % 7'', ''sqrt(16)'']),
      (''delimiter'',
        [
         '','', '':'', '';'', ''|'', [CHR 0x09], '' '', ''-'', ''_'', ''/'', ''.'']),
      (''string'',
        [
         ''hello world'', ''test string'', ''foo,bar,baz'', ''lorem ipsum'',
         ''quick brown fox'', ''sample text'', ''example data'', ''test input'',
         ''user@email.com'', ''192.168.1.1'']),
      (''src'',
        [
         ''file.txt'', ''source/'', ''./data'', ''input.json'', ''backup.tar.gz'', ''dump.sql'',
         ''exports/'', ''downloads/'', ''~/Documents/report.pdf'', ''/tmp/data.csv'']),
      (''dst'',
        [
         ''backup/'', ''output.txt'', ''./dest'', ''result.json'', ''archive/'', ''processed/'',
         ''~/backups/'', ''/mnt/storage/'', ''s3://bucket/path/'', ''/var/backup/'']),
      (''group'',
        [
         ''users'', ''admin'', ''www-data'', ''docker'', ''wheel'', ''sudo'', ''staff'',
         ''developers'']),
      (''content'',
        [
         ''Hello World'', ''Test content'', ''New line'', ''Sample text'', ''Lorem ipsum'',
         ''Configuration value'', ''Debug message'', ''Error log entry'', ''Status update'']),
      (''archive'',
        [
         ''backup'', ''archive'', ''data'', ''logs'', ''exports'', ''dumps'', ''snapshots'']),
      (''dir'',
        [
         ''mydir'', ''project'', ''backup'', ''data'', ''logs'', ''tmp'', ''cache'', ''config'',
         ''uploads'', ''downloads'', ''exports'', ''imports'', ''output'', ''results'']),
      (''port'',
        [
         ''80'', ''443'', ''8080'', ''3000'', ''5000'', ''8000'', ''5432'', ''3306'', ''6379'',
         ''27017'']),
      (''commit'',
        [
         ''HEAD'', ''HEAD~1'', ''HEAD~2'', ''main'', ''abc123f'', ''v1.0.0'', ''origin/main'']),
      (''repo'',
        [
         ''myrepo'', ''project'', ''app'', ''api'', ''frontend'', ''backend'', ''user/repo'']),
      (''tag'',
        [
         ''v1.0.0'', ''v1.0.1'', ''v2.0.0'', ''latest'', ''stable'', ''beta'', ''alpha'']),
      (''key'',
        [
         ''id'', ''name'', ''type'', ''status'', ''created_at'', ''updated_at'', ''value'',
         ''data''])]\<close>


section \<open>Corruption primitives of \<open>BaseGenerator\<close>\<close>

definition ascii_lowercase :: string where
  "ascii_lowercase = ''abcdefghijklmnopqrstuvwxyz''"

definition generate_typo :: "string \<Rightarrow> rat \<Rightarrow> rng \<Rightarrow> string \<times> rng" where
  "generate_typo text typo_rate g =
     (if text = [] then (text, g)
      else
        let (r, g) = rng_random g in
        if r > typo_rate then (text, g)
        else
          let words = str_split text in
          if words = [] then (text, g)
          else
            let word_weights = map (\<lambda>w. of_nat (length w)) words;
                (idx, g) = rng_choices [0..<length words] word_weights g;
                word = words ! idx
            in
            if length word < 2 then (text, g)
            else
              let (typo_type, g) =
                    rng_choice [''swap'', ''delete'', ''insert'', ''adjacent'', ''double''] g;
                  (word, g) =
                    (if typo_type = ''swap'' \<and> length word \<ge> 3 then
                       let (pos, g) = rng_randint 0 (int (length word) - 2) g; pos = nat pos
                       in (take pos word @ [word ! (pos + 1)] @ [word ! pos]
                             @ drop (pos + 2) word, g)
                     else if typo_type = ''delete'' \<and> length word \<ge> 3 then
                       let (pos, g) = rng_randint 1 (int (length word) - 1) g; pos = nat pos
                       in (take pos word @ drop (pos + 1) word, g)
                     else if typo_type = ''insert'' then
                       let (pos, g) = rng_randint 1 (int (length word) - 1) g; pos = nat pos;
                           (char, g) = rng_choice ascii_lowercase g
                       in (take pos word @ [char] @ drop pos word, g)
                     else if typo_type = ''adjacent'' then
                       let (pos, g) = rng_randint 0 (int (length word) - 1) g; pos = nat pos;
                           char = char_lower (word ! pos)
                       in (case map_of KEYBOARD_ADJACENT char of
                             Some adjacent \<Rightarrow>
                               let (new_char, g) = rng_choice adjacent g
                               in (take pos word @ [new_char] @ drop (pos + 1) word, g)
                           | None \<Rightarrow> (word, g))
                     else if typo_type = ''double'' \<and> length word \<ge> 2 then
                       let (pos, g) = rng_randint 0 (int (length word) - 1) g; pos = nat pos
                       in (take pos word @ [word ! pos] @ drop pos word, g)
                     else (word, g))
              in (str_join '' '' (words[idx := word]), g))"

definition pop_at :: "nat \<Rightarrow> 'a list \<Rightarrow> 'a list" where
  \<comment> \<open>the list after \<open>xs.pop(i)\<close>\<close>
  "pop_at i xs = take i xs @ drop (Suc i) xs"

definition remove_space :: "string \<Rightarrow> rng \<Rightarrow> string \<times> rng" where
  "remove_space text g =
     (let parts = str_split text in
      if length parts < 2 then (text, g)
      else
        let (i, g') = rng_randint 0 (int (length parts) - 2) g;
            idx = nat i;
            parts = parts[idx := parts ! idx @ parts ! (idx + 1)];
            parts = pop_at (idx + 1) parts
        in (str_join '' '' parts, g'))"

definition wrong_flag :: "string \<Rightarrow> rng \<Rightarrow> string \<times> rng" where
  "wrong_flag text g =
     (if str_contains text '' --'' then
        (let (r, g') = rng_random g in
         if r > 1 / 2 then (str_replace1 '' --'' '' -'' text, g')
         else if str_contains text '' -'' \<and> \<not> str_contains text '' --''
         then (str_replace1 '' -'' '' --'' text, g')
         else (text, g'))
      else if str_contains text '' -'' \<and> \<not> str_contains text '' --''
      then (str_replace1 '' -'' '' --'' text, g)
      else (text, g))"

fun expand_template :: "string \<Rightarrow> (string \<times> string) list \<Rightarrow> string" where
  \<comment> \<open>\<open>variables\<close> is the dict as its list of items, in insertion order\<close>
  "expand_template template [] = template"
| "expand_template template ((key, val) # variables) =
     expand_template (str_replace (''{'' @ key @ ''}'') val template) variables"


section \<open>The quality gate\<close>

definition diff_count :: "string \<Rightarrow> string \<Rightarrow> nat" where
  \<comment> \<open>\<open>sum(1 for a, b in zip(inc, cor) if a != b)\<close>\<close>
  "diff_count inc cor = length (filter (\<lambda>(a, b). a \<noteq> b) (zip inc cor))"

definition is_single_char_correction :: "string \<Rightarrow> string \<Rightarrow> bool" where
  "is_single_char_correction incorrect correct =
     (let inc = str_strip incorrect; cor = str_strip correct in
      if length inc = length cor then diff_count inc cor = 1
      else if \<bar>int (length inc) - int (length cor)\<bar> = 1 then
        (let (shorter, longer) = (if length inc \<le> length cor then (inc, cor) else (cor, inc))
         in list_ex (\<lambda>i. shorter = take i longer @ drop (i + 1) longer) [0..<length longer])
      else False)"


section \<open>The variable resolver\<close>

definition get_random_variable :: "string \<Rightarrow> rng \<Rightarrow> string \<times> rng" where
  "get_random_variable var_name g =
     (case map_of COMMON_VARIABLES var_name of
        Some vals \<Rightarrow> rng_choice vals g
      | None \<Rightarrow> (var_name, g))"

fun extract_loop ::
  "string list \<Rightarrow> (string \<times> string) list \<Rightarrow> rng \<Rightarrow> (string \<times> string) list \<times> rng" where
  \<comment> \<open>\<open>for placeholder in placeholders: if placeholder not in variables: ...\<close>\<close>
  "extract_loop [] variables g = (variables, g)"
| "extract_loop (placeholder # placeholders) variables g =
     (if map_of variables placeholder = None then
        let (v, g) = get_random_variable placeholder g
        in extract_loop placeholders (variables @ [(placeholder, v)]) g
      else extract_loop placeholders variables g)"

definition extract_variables :: "string \<Rightarrow> rng \<Rightarrow> (string \<times> string) list \<times> rng" where
  \<comment> \<open>\<open>_extract_variables\<close>, the same code in all four generators\<close>
  "extract_variables template g = extract_loop (findall_placeholders template) [] g"


section \<open>The shared shape of the generators\<close>

definition null_correction :: "TrainingExample \<Rightarrow> bool" where
  \<comment> \<open>\<open>ex.incorrect_command.strip() == ex.correct_command.strip()\<close>\<close>
  "null_correction ex \<longleftrightarrow> str_strip (incorrect_command ex) = str_strip (correct_command ex)"

definition single_char_example :: "TrainingExample \<Rightarrow> bool" where
  "single_char_example ex \<longleftrightarrow>
     is_single_char_correction (incorrect_command ex) (correct_command ex)"

definition shell_counts :: "nat \<Rightarrow> (string \<times> nat) list" where
  \<comment> \<open>\<open>int(count * weight)\<close> per shell, the remainder added to bash\<close>
  "shell_counts count =
     (let counts = map (\<lambda>(shell, weight). (shell, nat \<lfloor>of_nat count * weight\<rfloor>)) SHELL_WEIGHTS;
          total = sum_list (map snd counts)
      in if total < count
         then map (\<lambda>(shell, n). if shell = ''bash'' then (shell, n + (count - total))
                                 else (shell, n)) counts
         else counts)"

primrec repeat_collect :: "nat \<Rightarrow> (rng \<Rightarrow> 'a option \<times> rng) \<Rightarrow> rng \<Rightarrow> 'a list \<times> rng" where
  \<comment> \<open>\<open>for _ in range(n): example = body(); if example: examples.append(example)\<close>\<close>
  "repeat_collect 0 body g = ([], g)"
| "repeat_collect (Suc n) body g =
     (let (example, g) = body g;
          (examples, g) = repeat_collect n body g
      in (case example of Some ex \<Rightarrow> ex # examples | None \<Rightarrow> examples, g))"

fun for_shells ::
  "(string \<Rightarrow> nat \<Rightarrow> rng \<Rightarrow> 'a list \<times> rng) \<Rightarrow> (string \<times> nat) list \<Rightarrow> rng \<Rightarrow> 'a list \<times> rng" where
  \<comment> \<open>\<open>for shell, shell_count in shell_counts.items(): examples.extend(body(shell,
      shell_count))\<close>\<close>
  "for_shells body [] g = ([], g)"
| "for_shells body ((shell, shell_count) # rest) g =
     (let (shell_examples, g) = body shell shell_count g;
          (examples, g) = for_shells body rest g
      in (shell_examples @ examples, g))"

fun regenerate ::
  "nat \<Rightarrow> (nat \<Rightarrow> rng \<Rightarrow> TrainingExample list \<times> rng) \<Rightarrow> nat \<Rightarrow> TrainingExample list \<Rightarrow> rng
     \<Rightarrow> TrainingExample list \<times> rng" where
  \<comment> \<open>\<open>while len(examples) < count and retry < max_retries\<close>, with \<open>max_retries - retry\<close>
      rounds left; \<open>extra_gen n\<close> generates the \<open>n = deficit * 2\<close> extra bash examples\<close>
  "regenerate 0 extra_gen count examples g = (examples, g)"
| "regenerate (Suc rounds) extra_gen count examples g =
     (if length examples < count then
        let deficit = count - length examples;
            (extra, g) = extra_gen (deficit * 2) g;
            extra = filter (\<lambda>ex. \<not> null_correction ex) extra
        in regenerate rounds extra_gen count (examples @ extra) g
      else (examples, g))"

definition cap_single_char :: "nat \<Rightarrow> TrainingExample list \<Rightarrow> TrainingExample list" where
  \<comment> \<open>the partition into single-character and other examples, the former cut to
      \<open>max_single_char\<close>, and the recombination \<open>multi + single\<close>\<close>
  "cap_single_char max_single_char examples =
     (let single_char_examples = filter single_char_example examples;
          multi_char_examples = filter (\<lambda>ex. \<not> single_char_example ex) examples;
          single_char_examples =
            (if length single_char_examples > max_single_char
             then take max_single_char single_char_examples else single_char_examples)
      in multi_char_examples @ single_char_examples)"


section \<open>The chained-command generator (DS2)\<close>

subsection \<open>The catalogs of \<open>ChainedCommandGenerator\<close>\<close>

definition PIPE_PATTERNS :: "(string \<times> pattern list) list" where
  \<open>PIPE_PATTERNS =
     [
      (''bash'',
        [\<lparr>entry_correct = ''grep '{pattern}' {file} | sort -u | wc -l'',
           entry_errors =
             [
              ''cat {file} | grep '{pattern}' | sort | uniq | wc'',
              ''grep {pattern} {file} | sort -u | wc''],
           pattern_category = ''text_processing''\<rparr>,
         \<lparr>entry_correct = ''find . -name '*.py' -exec grep -l '{pattern}' {} +'',
           entry_errors =
             [
              (''find . -name '*.py' | xargs grep '{pattern}'' @ [CHR 0x27]),
              (''find . -name *.py -exec grep -l {pattern} {} '' @ [CHR 0x5C] @ '';'')],
           pattern_category = ''search''\<rparr>,
         \<lparr>entry_correct = ''ps aux | grep -v grep | grep {process}'',
           entry_errors =
             [
              ''ps aux | grep {process}'', ''ps -ef | grep {process}''],
           pattern_category = ''processes''\<rparr>,
         \<lparr>entry_correct = (''curl -s {url} | jq '.'' @ [CHR 0x27]),
           entry_errors =
             [
              ''curl {url} | jq .'', ''curl -s {url} | jq''],
           pattern_category = ''network''\<rparr>,
         \<lparr>entry_correct = ''docker ps -q | xargs docker stop'',
           entry_errors =
             [
              ''docker stop $(docker ps -q)'', ''docker ps | xargs docker stop''],
           pattern_category = ''docker''\<rparr>,
         \<lparr>entry_correct = ''git log --oneline | head -10'',
           entry_errors =
             [
              ''git log | head -10'', ''git log --oneline | head''],
           pattern_category = ''git''\<rparr>,
         \<lparr>entry_correct = (''ls -la | awk '{print $9}'' @ [CHR 0x27]),
           entry_errors =
             [
              ''ls -la | awk {print $9}'', ''ls -la | cut -d' ' -f9''],
           pattern_category = ''file_operations''\<rparr>]),
      (''zsh'',
        [\<lparr>entry_correct = ''grep -r '{pattern}' **/*.py | sort -u'',
           entry_errors =
             [
              ''grep -r '{pattern}' . --include='*.py' | sort -u'',
              ''find . -name '*.py' | xargs grep '{pattern}' | sort -u''],
           pattern_category = ''search''\<rparr>]),
      (''powershell'',
        [\<lparr>entry_correct = ''Get-Process | Where-Object {{$_.CPU -gt 100}} | Sort-Object CPU -Descending'',
           entry_errors =
             [
              ''Get-Process | Where CPU -gt 100 | Sort CPU'',
              ''ps | where CPU -gt 100 | sort CPU''],
           pattern_category = ''processes''\<rparr>,
         \<lparr>entry_correct = ''Get-ChildItem -Recurse | Where-Object {{$_.Length -gt 1MB}}'',
           entry_errors =
             [
              ''Get-ChildItem -r | Where Length -gt 1MB'', ''gci -r | ? Length -gt 1MB''],
           pattern_category = ''file_operations''\<rparr>,
         \<lparr>entry_correct = (''Get-Content {file} | Select-String '{pattern}'' @ [CHR 0x27]),
           entry_errors =
             [
              (''gc {file} | sls '{pattern}'' @ [CHR 0x27]),
              (''cat {file} | grep '{pattern}'' @ [CHR 0x27])],
           pattern_category = ''text_processing''\<rparr>]),
      (''cmd'',
        [\<lparr>entry_correct = ''dir /s /b | findstr "{pattern}"'',
           entry_errors =
             [
              ''dir /s | findstr {pattern}'', ''dir | findstr "{pattern}"''],
           pattern_category = ''search''\<rparr>,
         \<lparr>entry_correct = ''type {file} | findstr "{pattern}"'',
           entry_errors =
             [
              ''type {file} | find "{pattern}"'', ''findstr "{pattern}" {file}''],
           pattern_category = ''text_processing''\<rparr>]),
      (''fish'',
        [\<lparr>entry_correct = ''find . -name '*.py' | while read f; echo $f; end'',
           entry_errors =
             [
              ''find . -name '*.py' | while read f; do echo $f; done'',
              ''for f in (find . -name '*.py'); echo $f; end''],
           pattern_category = ''search''\<rparr>]),
      (''tcsh'',
        [\<lparr>entry_correct = (''find . -name '*.py' | xargs grep '{pattern}'' @ [CHR 0x27]),
           entry_errors =
             [
              ''find . -name *.py | xargs grep {pattern}''],
           pattern_category = ''search''\<rparr>])]\<close>

definition CHAINING_PATTERNS :: "(string \<times> pattern list) list" where
  \<open>CHAINING_PATTERNS =
     [
      (''bash'',
        [\<lparr>entry_correct = ''mkdir -p {path} && cd {path}'',
           entry_errors =
             [
              ''mkdir {path}; cd {path}'', ''mkdir -p {path}; cd {path}'',
              ''mkdir {path} && cd {path}''],
           pattern_category = ''navigation''\<rparr>,
         \<lparr>entry_correct = ''git add . && git commit -m '{message}' && git push'',
           entry_errors =
             [
              ''git add .; git commit -m '{message}'; git push'',
              (''git add . && git commit -m '{message}'' @ [CHR 0x27]),
              ''git add && git commit && git push''],
           pattern_category = ''git''\<rparr>,
         \<lparr>entry_correct = ''cd {path} && npm install && npm start'',
           entry_errors =
             [
              ''cd {path}; npm install; npm start'', ''cd {path} && npm i && npm start''],
           pattern_category = ''development''\<rparr>,
         \<lparr>entry_correct = ''sudo apt update && sudo apt upgrade -y'',
           entry_errors =
             [
              ''apt update && apt upgrade'', ''sudo apt update; sudo apt upgrade -y''],
           pattern_category = ''packages''\<rparr>,
         \<lparr>entry_correct = ''docker-compose down && docker-compose up -d'',
           entry_errors =
             [
              ''docker compose down && docker compose up -d'',
              ''docker-compose down; docker-compose up -d''],
           pattern_category = ''docker''\<rparr>,
         \<lparr>entry_correct = ''make clean && make && make install'',
           entry_errors =
             [
              ''make clean; make; make install'', ''make clean && make''],
           pattern_category = ''development''\<rparr>,
         \<lparr>entry_correct = (''test -f {file} && cat {file} || echo 'Not found'' @ [CHR 0x27]),
           entry_errors =
             [
              ''if [ -f {file} ]; then cat {file}; else echo 'Not found'; fi'',
              ''[ -f {file} ] && cat {file}''],
           pattern_category = ''file_operations''\<rparr>]),
      (''zsh'',
        [\<lparr>entry_correct = ''mkdir -p {path} && cd {path}'',
           entry_errors =
             [
              ''mkdir {path}; cd {path}''],
           pattern_category = ''navigation''\<rparr>]),
      (''powershell'',
        [\<lparr>entry_correct = ''New-Item -ItemType Directory -Path {path} -Force; Set-Location {path}'',
           entry_errors =
             [
              ''mkdir {path}; cd {path}'', ''md {path} && cd {path}''],
           pattern_category = ''navigation''\<rparr>,
         \<lparr>entry_correct = ''git add .; git commit -m '{message}'; git push'',
           entry_errors =
             [
              ''git add . && git commit -m '{message}' && git push''],
           pattern_category = ''git''\<rparr>]),
      (''cmd'',
        [\<lparr>entry_correct = ''mkdir {path} && cd {path}'',
           entry_errors =
             [
              ''mkdir {path} & cd {path}'', ''md {path} && cd {path}''],
           pattern_category = ''navigation''\<rparr>]),
      (''fish'',
        [\<lparr>entry_correct = ''mkdir -p {path}; and cd {path}'',
           entry_errors =
             [
              ''mkdir -p {path} && cd {path}'', ''mkdir {path}; cd {path}''],
           pattern_category = ''navigation''\<rparr>]),
      (''tcsh'',
        [\<lparr>entry_correct = ''mkdir -p {path} && cd {path}'',
           entry_errors =
             [
              ''mkdir {path}; cd {path}''],
           pattern_category = ''navigation''\<rparr>])]\<close>

definition REDIRECTION_PATTERNS :: "(string \<times> pattern list) list" where
  \<open>REDIRECTION_PATTERNS =
     [
      (''bash'',
        [\<lparr>entry_correct = ''command > {file} 2>&1'',
           entry_errors =
             [
              ''command 2>&1 > {file}'', ''command > {file} 2>1'', ''command &> {file}''],
           pattern_category = ''redirection''\<rparr>,
         \<lparr>entry_correct = ''command >> {file} 2>&1'',
           entry_errors =
             [
              ''command 2>&1 >> {file}'', ''command >> {file}''],
           pattern_category = ''redirection''\<rparr>,
         \<lparr>entry_correct = ''command 2>/dev/null'',
           entry_errors =
             [
              ''command 2> /dev/null'', ''command >/dev/null 2>&1''],
           pattern_category = ''redirection''\<rparr>,
         \<lparr>entry_correct = (''cat << 'EOF'' @ [CHR 0x27, CHR 0x0A] @ ''content'' @ [CHR 0x0A] @ ''EOF''),
           entry_errors =
             [
              (''cat << EOF'' @ [CHR 0x0A] @ ''content'' @ [CHR 0x0A] @ ''EOF''),
              (''echo 'content'' @ [CHR 0x27])],
           pattern_category = ''redirection''\<rparr>,
         \<lparr>entry_correct = (''tee {file} <<< 'content'' @ [CHR 0x27]),
           entry_errors =
             [
              ''echo 'content' | tee {file}'', ''echo 'content' > {file}''],
           pattern_category = ''redirection''\<rparr>]),
      (''zsh'',
        [\<lparr>entry_correct = ''command &> {file}'',
           entry_errors =
             [
              ''command > {file} 2>&1''],
           pattern_category = ''redirection''\<rparr>]),
      (''powershell'',
        [\<lparr>entry_correct = ''command 2>&1 | Out-File {file}'',
           entry_errors =
             [
              ''command > {file} 2>&1'', ''command | Out-File {file}''],
           pattern_category = ''redirection''\<rparr>,
         \<lparr>entry_correct = ''command *> {file}'',
           entry_errors =
             [
              ''command > {file}'', ''command 2>&1 > {file}''],
           pattern_category = ''redirection''\<rparr>]),
      (''cmd'',
        [\<lparr>entry_correct = ''command > {file} 2>&1'',
           entry_errors =
             [
              ''command > {file}'', ''command 2>&1 > {file}''],
           pattern_category = ''redirection''\<rparr>]),
      (''fish'',
        [\<lparr>entry_correct = ''command > {file} 2>&1'',
           entry_errors =
             [
              ''command &> {file}''],
           pattern_category = ''redirection''\<rparr>]),
      (''tcsh'',
        [\<lparr>entry_correct = ''command >& {file}'',
           entry_errors =
             [
              ''command > {file} 2>&1''],
           pattern_category = ''redirection''\<rparr>])]\<close>

definition chained_ERROR_DISTRIBUTION :: "(string \<times> rat) list" where
  "chained_ERROR_DISTRIBUTION =
     [(''pipe'', 2 / 5), (''chaining'', 3 / 10), (''redirection'', 1 / 5), (''subshell'', 1 / 10)]"


subsection \<open>Synthesis\<close>

definition chained_select_error_type :: "rng \<Rightarrow> string \<times> rng" where
  "chained_select_error_type g =
     rng_choices (map fst chained_ERROR_DISTRIBUTION) (map snd chained_ERROR_DISTRIBUTION) g"

definition generate_synthetic_error :: "string \<Rightarrow> string \<Rightarrow> string \<Rightarrow> rng \<Rightarrow> string \<times> rng" where
  "generate_synthetic_error correct error_type shell g =
     (if error_type = ''pipe'' \<and> str_contains correct '' | ''
         \<and> length (str_split_sep '' | '' correct) > 2 then
        let parts = str_split_sep '' | '' correct;
            (idx, g) = rng_randint 1 (int (length parts) - 1) g
        in (str_join '' | '' (pop_at (nat idx) parts), g)
      else if error_type = ''chaining'' \<and> str_contains correct '' && '' then
        (str_replace1 '' && '' ''; '' correct, g)
      else if error_type = ''chaining'' \<and> str_contains correct '' || '' then
        (str_replace1 '' || '' '' | '' correct, g)
      else if error_type = ''redirection'' \<and> str_contains correct ''2>&1'' then
        (str_replace1 ''2>&1'' ''2>1'' correct, g)
      else if error_type = ''redirection'' \<and> str_contains correct ''>>'' then
        (str_replace1 ''>>'' ''>'' correct, g)
      else generate_typo correct (15 / 100) g)"

definition chained_incorrect_candidate ::
  "string list \<Rightarrow> (string \<times> string) list \<Rightarrow> string \<Rightarrow> string \<Rightarrow> string \<Rightarrow> rng \<Rightarrow> string \<times> rng" where
  \<comment> \<open>the statement \<open>if errors and self.rng.random() < 0.7: ... else: ...\<close> of
      \<open>_create_example_from_pattern\<close>, which selects the incorrect candidate\<close>
  "chained_incorrect_candidate errs variables correct_cmd error_type shell g =
     (if errs \<noteq> [] then
        let (r, g) = rng_random g in
        if r < 7 / 10 then
          let (error_template, g) = rng_choice errs g
          in (expand_template error_template variables, g)
        else generate_synthetic_error correct_cmd error_type shell g
      else generate_synthetic_error correct_cmd error_type shell g)"

definition create_example_from_pattern ::
  "string \<Rightarrow> pattern \<Rightarrow> string \<Rightarrow> rng \<Rightarrow> TrainingExample option \<times> rng" where
  "create_example_from_pattern shell pattern error_type g =
     (let correct_template = entry_correct pattern; errs = entry_errors pattern;
          category = pattern_category pattern in
      if correct_template = [] then (None, g)
      else
        let (variables, g) = extract_variables correct_template g;
            correct_cmd = expand_template correct_template variables;
            (incorrect_cmd, g) =
              chained_incorrect_candidate errs variables correct_cmd error_type shell g;
            (incorrect_cmd, g) =
              (if str_strip incorrect_cmd = str_strip correct_cmd then
                 let (incorrect_cmd, g) = generate_synthetic_error correct_cmd error_type shell g
                 in if str_strip incorrect_cmd = str_strip correct_cmd
                    then generate_typo correct_cmd 1 g
                    else (incorrect_cmd, g)
               else (incorrect_cmd, g))
        in if str_strip incorrect_cmd = str_strip correct_cmd then (None, g)
           else (Some \<lparr>ex_shell = shell, incorrect_command = incorrect_cmd,
                         correct_command = correct_cmd, ex_category = category,
                         ex_error_type = error_type, ex_source = ''chained_pattern'',
                         ex_metadata = []\<rparr>, g))"

definition chained_iteration ::
  "string \<Rightarrow> pattern list \<Rightarrow> pattern list \<Rightarrow> pattern list \<Rightarrow> rng
     \<Rightarrow> TrainingExample option \<times> rng" where
  \<comment> \<open>one round of the loop of \<open>_generate_for_shell\<close>\<close>
  "chained_iteration shell pipe_patterns chain_patterns redir_patterns g =
     (let (error_type, g) = chained_select_error_type g in
      if error_type = ''pipe'' \<and> pipe_patterns \<noteq> [] then
        let (pattern, g) = rng_choice pipe_patterns g
        in create_example_from_pattern shell pattern error_type g
      else if error_type = ''chaining'' \<and> chain_patterns \<noteq> [] then
        let (pattern, g) = rng_choice chain_patterns g
        in create_example_from_pattern shell pattern error_type g
      else if error_type = ''redirection'' \<and> redir_patterns \<noteq> [] then
        let (pattern, g) = rng_choice redir_patterns g
        in create_example_from_pattern shell pattern error_type g
      else
        let all_patterns = pipe_patterns @ chain_patterns @ redir_patterns in
        if all_patterns = [] then (None, g)
        else
          let (pattern, g) = rng_choice all_patterns g
          in create_example_from_pattern shell pattern error_type g)"

definition chained_generate_for_shell :: "string \<Rightarrow> nat \<Rightarrow> rng \<Rightarrow> TrainingExample list \<times> rng" where
  "chained_generate_for_shell shell count g =
     (let pipe_patterns = dict_get PIPE_PATTERNS shell (dict_get PIPE_PATTERNS ''bash'' []);
          chain_patterns = dict_get CHAINING_PATTERNS shell (dict_get CHAINING_PATTERNS ''bash'' []);
          redir_patterns =
            dict_get REDIRECTION_PATTERNS shell (dict_get REDIRECTION_PATTERNS ''bash'' [])
      in repeat_collect count
           (chained_iteration shell pipe_patterns chain_patterns redir_patterns) g)"

definition chained_generate :: "nat \<Rightarrow> rng \<Rightarrow> TrainingExample list \<times> rng" where
  \<comment> \<open>\<open>ChainedCommandGenerator.generate(count)\<close> from the generator's RNG state \<open>g\<close>\<close>
  "chained_generate count g =
     (let (examples, g) = for_shells chained_generate_for_shell (shell_counts count) g;
          examples = filter (\<lambda>ex. \<not> null_correction ex) examples;
          (examples, g) =
            regenerate 3 (chained_generate_for_shell ''bash'') count examples g;
          (examples, g) = rng_shuffle examples g
      in (take count examples, g))"


section \<open>The tools generator (DS4)\<close>

subsection \<open>The catalog of \<open>ToolsGenerator\<close>\<close>

definition TOOLS :: "(string \<times> (string \<times> entry list) list) list" where
  \<open>TOOLS =
     [
      (''version_control'',
        [
         (''git'',
           [\<lparr>entry_correct = ''git status'', entry_errors = [''gti status'', ''git stauts'', ''git stats'']\<rparr>,
            \<lparr>entry_correct = ''git add .'', entry_errors = [''git add'', ''git add -a'', ''gti add .'']\<rparr>,
            \<lparr>entry_correct = (''git commit -m '{message}'' @ [CHR 0x27]), entry_errors = [(''git commit '{message}'' @ [CHR 0x27]), (''git comit -m '{message}'' @ [CHR 0x27]), ''git commit -m {message}'']\<rparr>,
            \<lparr>entry_correct = ''git push origin {branch}'', entry_errors = [''git push'', ''git psuh origin {branch}'', ''git push orgin {branch}'']\<rparr>,
            \<lparr>entry_correct = ''git pull origin {branch}'', entry_errors = [''git pull'', ''git pul origin {branch}'', ''git pull orign {branch}'']\<rparr>,
            \<lparr>entry_correct = ''git checkout {branch}'', entry_errors = [''git checkotu {branch}'', ''git checkout'', ''git ckeckout {branch}'']\<rparr>,
            \<lparr>entry_correct = ''git checkout -b {branch}'', entry_errors = [''git checkout -B {branch}'', ''git checkout -b'']\<rparr>,
            \<lparr>entry_correct = ''git merge {branch}'', entry_errors = [''git merg {branch}'', ''git merge'']\<rparr>,
            \<lparr>entry_correct = ''git rebase {branch}'', entry_errors = [''git reabse {branch}'', ''git rebase'']\<rparr>,
            \<lparr>entry_correct = ''git stash'', entry_errors = [''git stach'', ''git stas'']\<rparr>,
            \<lparr>entry_correct = ''git stash pop'', entry_errors = [''git stash apply'', ''git stash ppo'']\<rparr>,
            \<lparr>entry_correct = ''git log --oneline'', entry_errors = [''git log --online'', ''git log -oneline'']\<rparr>,
            \<lparr>entry_correct = ''git diff'', entry_errors = [''git dif'', ''git diff.'']\<rparr>,
            \<lparr>entry_correct = ''git clone {url}'', entry_errors = [''git clone'', ''git cloen {url}'']\<rparr>,
            \<lparr>entry_correct = ''git branch -d {branch}'', entry_errors = [''git branch -D {branch}'', ''git branch -d'']\<rparr>,
            \<lparr>entry_correct = ''git remote -v'', entry_errors = [''git remote'', ''git remote -V'']\<rparr>,
            \<lparr>entry_correct = ''git fetch --all'', entry_errors = [''git fetch'', ''git fecth --all'']\<rparr>,
            \<lparr>entry_correct = ''git reset --hard HEAD'', entry_errors = [''git reset --hard'', ''git reset HEAD'']\<rparr>,
            \<lparr>entry_correct = ''git cherry-pick {commit}'', entry_errors = [''git cherry-pick'', ''git cherrypick {commit}'']\<rparr>]),
         (''gh'',
           [\<lparr>entry_correct = ''gh pr create'', entry_errors = [''gh pr creat'', ''gh create pr'']\<rparr>,
            \<lparr>entry_correct = ''gh pr list'', entry_errors = [''gh pr ls'', ''gh prs'']\<rparr>,
            \<lparr>entry_correct = ''gh issue create'', entry_errors = [''gh issue creat'', ''gh create issue'']\<rparr>,
            \<lparr>entry_correct = ''gh repo clone {repo}'', entry_errors = [''gh clone {repo}'', ''gh repo clone'']\<rparr>])]),
      (''package_managers'',
        [
         (''npm'',
           [\<lparr>entry_correct = ''npm install'', entry_errors = [''npm instal'', ''npm i'', ''npn install'']\<rparr>,
            \<lparr>entry_correct = ''npm install {package}'', entry_errors = [''npm instal {package}'', ''npm add {package}'']\<rparr>,
            \<lparr>entry_correct = ''npm install --save-dev {package}'', entry_errors = [''npm install -D {package}'', ''npm i --save-dev {package}'']\<rparr>,
            \<lparr>entry_correct = ''npm run {script}'', entry_errors = [''npm {script}'', ''npm run'']\<rparr>,
            \<lparr>entry_correct = ''npm start'', entry_errors = [''npm strart'', ''npm star'']\<rparr>,
            \<lparr>entry_correct = ''npm test'', entry_errors = [''npm tets'', ''npm tests'']\<rparr>,
            \<lparr>entry_correct = ''npm update'', entry_errors = [''npm updaet'', ''npm upgrade'']\<rparr>,
            \<lparr>entry_correct = ''npm uninstall {package}'', entry_errors = [''npm remove {package}'', ''npm uninstal {package}'']\<rparr>]),
         (''yarn'',
           [\<lparr>entry_correct = ''yarn install'', entry_errors = [''yarn instal'', ''yarn'']\<rparr>,
            \<lparr>entry_correct = ''yarn add {package}'', entry_errors = [''yarn install {package}'', ''yarn ad {package}'']\<rparr>,
            \<lparr>entry_correct = ''yarn add --dev {package}'', entry_errors = [''yarn add -D {package}'', ''yarn add -dev {package}'']\<rparr>,
            \<lparr>entry_correct = ''yarn run {script}'', entry_errors = [''yarn {script}'']\<rparr>]),
         (''pip'',
           [\<lparr>entry_correct = ''pip install {package}'', entry_errors = [''pip instal {package}'', ''pip istall {package}'']\<rparr>,
            \<lparr>entry_correct = ''pip install -r requirements.txt'', entry_errors = [''pip install requirements.txt'', ''pip install -r requirements'']\<rparr>,
            \<lparr>entry_correct = ''pip install --upgrade {package}'', entry_errors = [''pip upgrade {package}'', ''pip install -U {package}'']\<rparr>,
            \<lparr>entry_correct = ''pip uninstall {package}'', entry_errors = [''pip remove {package}'', ''pip uninstal {package}'']\<rparr>,
            \<lparr>entry_correct = ''pip freeze'', entry_errors = [''pip freez'', ''pip list --format=freeze'']\<rparr>,
            \<lparr>entry_correct = ''pip list'', entry_errors = [''pip ls'', ''pip lsit'']\<rparr>]),
         (''cargo'',
           [\<lparr>entry_correct = ''cargo build'', entry_errors = [''cargo biuld'', ''cargo buidl'']\<rparr>,
            \<lparr>entry_correct = ''cargo run'', entry_errors = [''cargo rnu'', ''cargo exec'']\<rparr>,
            \<lparr>entry_correct = ''cargo test'', entry_errors = [''cargo tets'', ''cargo tests'']\<rparr>,
            \<lparr>entry_correct = ''cargo add {package}'', entry_errors = [''cargo install {package}'', ''cargo ad {package}'']\<rparr>,
            \<lparr>entry_correct = ''cargo update'', entry_errors = [''cargo updaet'', ''cargo upgrade'']\<rparr>]),
         (''brew'',
           [\<lparr>entry_correct = ''brew install {package}'', entry_errors = [''brew instal {package}'', ''brew add {package}'']\<rparr>,
            \<lparr>entry_correct = ''brew update'', entry_errors = [''brew updaet'', ''brew refresh'']\<rparr>,
            \<lparr>entry_correct = ''brew upgrade'', entry_errors = [''brew upgarde'', ''brew update --all'']\<rparr>,
            \<lparr>entry_correct = ''brew uninstall {package}'', entry_errors = [''brew remove {package}'', ''brew uninstal {package}'']\<rparr>,
            \<lparr>entry_correct = ''brew list'', entry_errors = [''brew ls'', ''brew lsit'']\<rparr>,
            \<lparr>entry_correct = ''brew search {package}'', entry_errors = [''brew find {package}'', ''brew serach {package}'']\<rparr>]),
         (''apt'',
           [\<lparr>entry_correct = ''sudo apt update'', entry_errors = [''apt update'', ''sudo apt updaet'']\<rparr>,
            \<lparr>entry_correct = ''sudo apt upgrade -y'', entry_errors = [''apt upgrade'', ''sudo apt upgrade'']\<rparr>,
            \<lparr>entry_correct = ''sudo apt install {package}'', entry_errors = [''apt install {package}'', ''sudo apt instal {package}'']\<rparr>,
            \<lparr>entry_correct = ''sudo apt remove {package}'', entry_errors = [''apt remove {package}'', ''sudo apt uninstall {package}'']\<rparr>,
            \<lparr>entry_correct = ''apt search {package}'', entry_errors = [''apt find {package}'', ''apt serach {package}'']\<rparr>]),
         (''pacman'',
           [\<lparr>entry_correct = ''sudo pacman -Syu'', entry_errors = [''pacman -Syu'', ''sudo pacman -syu'']\<rparr>,
            \<lparr>entry_correct = ''sudo pacman -S {package}'', entry_errors = [''pacman -S {package}'', ''sudo pacman -s {package}'']\<rparr>,
            \<lparr>entry_correct = ''sudo pacman -R {package}'', entry_errors = [''pacman -R {package}'', ''sudo pacman -r {package}'']\<rparr>,
            \<lparr>entry_correct = ''pacman -Ss {package}'', entry_errors = [''pacman -ss {package}'', ''pacman search {package}'']\<rparr>])]),
      (''containers'',
        [
         (''docker'',
           [\<lparr>entry_correct = ''docker ps'', entry_errors = [''docker pa'', ''docker ls'', ''dcoker ps'']\<rparr>,
            \<lparr>entry_correct = ''docker ps -a'', entry_errors = [''docker ps --all'', ''docker pa -a'']\<rparr>,
            \<lparr>entry_correct = ''docker images'', entry_errors = [''docker image'', ''docker imgs'']\<rparr>,
            \<lparr>entry_correct = ''docker run -it {image}'', entry_errors = [''docker run {image}'', ''docker run -i -t {image}'']\<rparr>,
            \<lparr>entry_correct = ''docker exec -it {container} bash'', entry_errors = [''docker exec {container} bash'', ''docker exec -it {container}'']\<rparr>,
            \<lparr>entry_correct = ''docker stop {container}'', entry_errors = [''docker stopp {container}'', ''docker kill {container}'']\<rparr>,
            \<lparr>entry_correct = ''docker rm {container}'', entry_errors = [''docker remove {container}'', ''docker delete {container}'']\<rparr>,
            \<lparr>entry_correct = ''docker rmi {image}'', entry_errors = [''docker rm {image}'', ''docker image rm {image}'']\<rparr>,
            \<lparr>entry_correct = ''docker build -t {image} .'', entry_errors = [''docker build {image} .'', ''docker build -t {image}'']\<rparr>,
            \<lparr>entry_correct = ''docker pull {image}'', entry_errors = [''docker pul {image}'', ''docker get {image}'']\<rparr>,
            \<lparr>entry_correct = ''docker push {image}'', entry_errors = [''docker psuh {image}'', ''docker upload {image}'']\<rparr>,
            \<lparr>entry_correct = ''docker logs {container}'', entry_errors = [''docker log {container}'', ''docker logs'']\<rparr>,
            \<lparr>entry_correct = ''docker-compose up -d'', entry_errors = [''docker compose up -d'', ''docker-compose up'']\<rparr>,
            \<lparr>entry_correct = ''docker-compose down'', entry_errors = [''docker compose down'', ''docker-compose stop'']\<rparr>,
            \<lparr>entry_correct = ''docker system prune -a'', entry_errors = [''docker prune'', ''docker system prune'']\<rparr>]),
         (''kubectl'',
           [\<lparr>entry_correct = ''kubectl get pods'', entry_errors = [''kubectl get pod'', ''kubeclt get pods'', ''kubectl pods'']\<rparr>,
            \<lparr>entry_correct = ''kubectl get pods -A'', entry_errors = [''kubectl get pods --all-namespaces'', ''kubectl get pods -a'']\<rparr>,
            \<lparr>entry_correct = ''kubectl describe pod {pod}'', entry_errors = [''kubectl describe {pod}'', ''kubectl desc pod {pod}'']\<rparr>,
            \<lparr>entry_correct = ''kubectl logs {pod}'', entry_errors = [''kubectl log {pod}'', ''kubeclt logs {pod}'']\<rparr>,
            \<lparr>entry_correct = ''kubectl exec -it {pod} -- bash'', entry_errors = [''kubectl exec {pod} bash'', ''kubectl exec -it {pod} bash'']\<rparr>,
            \<lparr>entry_correct = ''kubectl apply -f {file}'', entry_errors = [''kubectl apply {file}'', ''kubectl create -f {file}'']\<rparr>,
            \<lparr>entry_correct = ''kubectl delete pod {pod}'', entry_errors = [''kubectl delete {pod}'', ''kubectl remove pod {pod}'']\<rparr>,
            \<lparr>entry_correct = ''kubectl get services'', entry_errors = [''kubectl get svc'', ''kubectl get service'']\<rparr>,
            \<lparr>entry_correct = ''kubectl get deployments'', entry_errors = [''kubectl get deploy'', ''kubectl get deployment'']\<rparr>,
            \<lparr>entry_correct = ''kubectl scale deployment {name} --replicas={n}'', entry_errors = [''kubectl scale {name} --replicas={n}'']\<rparr>]),
         (''podman'',
           [\<lparr>entry_correct = ''podman ps'', entry_errors = [''podman pa'', ''podman ls'']\<rparr>,
            \<lparr>entry_correct = ''podman run -it {image}'', entry_errors = [''podman run {image}'']\<rparr>])]),
      (''cloud'',
        [
         (''aws'',
           [\<lparr>entry_correct = ''aws s3 ls'', entry_errors = [''aws s3 list'', ''aws s3ls'']\<rparr>,
            \<lparr>entry_correct = ''aws s3 cp {src} {dst}'', entry_errors = [''aws s3 copy {src} {dst}'']\<rparr>,
            \<lparr>entry_correct = ''aws ec2 describe-instances'', entry_errors = [''aws ec2 list-instances'', ''aws ec2 describe-instance'']\<rparr>,
            \<lparr>entry_correct = ''aws configure'', entry_errors = [''aws config'', ''aws setup'']\<rparr>,
            \<lparr>entry_correct = ''aws sts get-caller-identity'', entry_errors = [''aws whoami'', ''aws sts get-identity'']\<rparr>]),
         (''az'',
           [\<lparr>entry_correct = ''az login'', entry_errors = [''az signin'', ''az auth'']\<rparr>,
            \<lparr>entry_correct = ''az account list'', entry_errors = [''az accounts'', ''az account ls'']\<rparr>,
            \<lparr>entry_correct = ''az vm list'', entry_errors = [''az vms'', ''az vm ls'']\<rparr>,
            \<lparr>entry_correct = ''az group list'', entry_errors = [''az groups'', ''az group ls'']\<rparr>]),
         (''gcloud'',
           [\<lparr>entry_correct = ''gcloud auth login'', entry_errors = [''gcloud login'', ''gcloud signin'']\<rparr>,
            \<lparr>entry_correct = ''gcloud config set project {project}'', entry_errors = [''gcloud set project {project}'']\<rparr>,
            \<lparr>entry_correct = ''gcloud compute instances list'', entry_errors = [''gcloud instances list'', ''gcloud compute list'']\<rparr>]),
         (''terraform'',
           [\<lparr>entry_correct = ''terraform init'', entry_errors = [''tf init'', ''terraform initialize'']\<rparr>,
            \<lparr>entry_correct = ''terraform plan'', entry_errors = [''tf plan'', ''terraform preview'']\<rparr>,
            \<lparr>entry_correct = ''terraform apply'', entry_errors = [''tf apply'', ''terraform deploy'']\<rparr>,
            \<lparr>entry_correct = ''terraform destroy'', entry_errors = [''tf destroy'', ''terraform delete'']\<rparr>,
            \<lparr>entry_correct = ''terraform fmt'', entry_errors = [''terraform format'', ''tf fmt'']\<rparr>,
            \<lparr>entry_correct = ''terraform validate'', entry_errors = [''terraform check'', ''tf validate'']\<rparr>])]),
      (''build'',
        [
         (''make'',
           [\<lparr>entry_correct = ''make'', entry_errors = [''mak'', ''mae'']\<rparr>,
            \<lparr>entry_correct = ''make clean'', entry_errors = [''make clen'', ''make clear'']\<rparr>,
            \<lparr>entry_correct = ''make install'', entry_errors = [''make instal'', ''make setup'']\<rparr>,
            \<lparr>entry_correct = ''make -j{n}'', entry_errors = [''make -j {n}'', ''make -J{n}'']\<rparr>]),
         (''cmake'',
           [\<lparr>entry_correct = ''cmake ..'', entry_errors = [''cmake'', ''cmake -'']\<rparr>,
            \<lparr>entry_correct = ''cmake --build .'', entry_errors = [''cmake build'', ''cmake --build'']\<rparr>,
            \<lparr>entry_correct = ''cmake -DCMAKE_BUILD_TYPE=Release ..'', entry_errors = [''cmake -DCMAKE_BUILD_TYPE Release ..'']\<rparr>]),
         (''gradle'',
           [\<lparr>entry_correct = ''gradle build'', entry_errors = [''gradle biuld'', ''./gradlew build'']\<rparr>,
            \<lparr>entry_correct = ''./gradlew build'', entry_errors = [''gradlew build'', ''gradle build'']\<rparr>,
            \<lparr>entry_correct = ''gradle test'', entry_errors = [''gradle tets'', ''./gradlew test'']\<rparr>,
            \<lparr>entry_correct = ''gradle clean'', entry_errors = [''gradle clen'', ''./gradlew clean'']\<rparr>]),
         (''maven'',
           [\<lparr>entry_correct = ''mvn clean install'', entry_errors = [''mvn clean instal'', ''maven clean install'']\<rparr>,
            \<lparr>entry_correct = ''mvn package'', entry_errors = [''mvn pack'', ''maven package'']\<rparr>,
            \<lparr>entry_correct = ''mvn test'', entry_errors = [''mvn tets'', ''maven test'']\<rparr>,
            \<lparr>entry_correct = ''mvn compile'', entry_errors = [''mvn complie'', ''maven compile'']\<rparr>])]),
      (''network'',
        [
         (''curl'',
           [\<lparr>entry_correct = ''curl -X GET {url}'', entry_errors = [''curl {url}'', ''crul -X GET {url}'']\<rparr>,
            \<lparr>entry_correct = ''curl -X POST -d '{data}' {url}'', entry_errors = [(''curl -X POST {url} -d '{data}'' @ [CHR 0x27])]\<rparr>,
            \<lparr>entry_correct = ''curl -O {url}'', entry_errors = [''curl -o {url}'', ''curl --output {url}'']\<rparr>,
            \<lparr>entry_correct = ''curl -s {url}'', entry_errors = [''curl --silent {url}'', ''curl -S {url}'']\<rparr>,
            \<lparr>entry_correct = ''curl -H 'Content-Type: application/json' {url}'', entry_errors = [''curl -H Content-Type: application/json {url}'']\<rparr>]),
         (''wget'',
           [\<lparr>entry_correct = ''wget {url}'', entry_errors = [''wegt {url}'', ''wget -O {url}'']\<rparr>,
            \<lparr>entry_correct = ''wget -O {file} {url}'', entry_errors = [''wget {url} -O {file}'']\<rparr>,
            \<lparr>entry_correct = ''wget -r {url}'', entry_errors = [''wget --recursive {url}'']\<rparr>]),
         (''ssh'',
           [\<lparr>entry_correct = ''ssh {user}@'' @ ''{host}'', entry_errors = [''ssh {host}'', ''shh {user}@'' @ ''{host}'']\<rparr>,
            \<lparr>entry_correct = ''ssh -i {file} {user}@'' @ ''{host}'', entry_errors = [''ssh {user}@'' @ ''{host} -i {file}'']\<rparr>,
            \<lparr>entry_correct = ''ssh-keygen -t rsa -b 4096'', entry_errors = [''ssh-keygen'', ''ssh-keygen -t rsa'']\<rparr>]),
         (''scp'',
           [\<lparr>entry_correct = ''scp {src} {user}@'' @ ''{host}:{dst}'', entry_errors = [''scp {src} {host}:{dst}'']\<rparr>,
            \<lparr>entry_correct = ''scp -r {src} {user}@'' @ ''{host}:{dst}'', entry_errors = [''scp {src} {user}@'' @ ''{host}:{dst}'']\<rparr>]),
         (''rsync'',
           [\<lparr>entry_correct = ''rsync -avz {src} {dst}'', entry_errors = [''rsync {src} {dst}'', ''rsync -av {src} {dst}'']\<rparr>,
            \<lparr>entry_correct = ''rsync -avz --delete {src} {dst}'', entry_errors = [''rsync -avz {src} {dst} --delete'']\<rparr>])]),
      (''text'',
        [
         (''grep'',
           [\<lparr>entry_correct = ''grep '{pattern}' {file}'', entry_errors = [''grep {pattern} {file}'', ''gerp '{pattern}' {file}'']\<rparr>,
            \<lparr>entry_correct = ''grep -r '{pattern}' .'', entry_errors = [''grep -R '{pattern}' .'', ''grep '{pattern}' . -r'']\<rparr>,
            \<lparr>entry_correct = ''grep -i '{pattern}' {file}'', entry_errors = [''grep -I '{pattern}' {file}'']\<rparr>,
            \<lparr>entry_correct = ''grep -v '{pattern}' {file}'', entry_errors = [''grep --invert-match '{pattern}' {file}'']\<rparr>,
            \<lparr>entry_correct = ''grep -n '{pattern}' {file}'', entry_errors = [''grep -N '{pattern}' {file}'']\<rparr>]),
         (''sed'',
           [\<lparr>entry_correct = ''sed -i 's/{old}/{new}/g' {file}'', entry_errors = [''sed 's/{old}/{new}/g' {file}'', ''sed -i 's/{old}/{new}/' {file}'']\<rparr>,
            \<lparr>entry_correct = ''sed -n '{n}p' {file}'', entry_errors = [''sed '{n}p' {file}'']\<rparr>]),
         (''awk'',
           [\<lparr>entry_correct = ''awk '{{print $1}}' {file}'', entry_errors = [''awk {print $1} {file}'', ''awk '{{print}}' {file}'']\<rparr>,
            \<lparr>entry_correct = ''awk -F',' '{{print $1}}' {file}'', entry_errors = [''awk -F, '{{print $1}}' {file}'']\<rparr>]),
         (''jq'',
           [\<lparr>entry_correct = ''jq '.' {file}'', entry_errors = [''jq . {file}'', (''jq '{file}'' @ [CHR 0x27])]\<rparr>,
            \<lparr>entry_correct = ''jq '.{key}' {file}'', entry_errors = [''jq {key} {file}'']\<rparr>,
            \<lparr>entry_correct = ''jq -r '.{key}' {file}'', entry_errors = [''jq '.{key}' {file} -r'']\<rparr>])]),
      (''languages'',
        [
         (''python'',
           [\<lparr>entry_correct = ''python {file}'', entry_errors = [''pyhton {file}'', ''pytohn {file}'']\<rparr>,
            \<lparr>entry_correct = ''python -m venv {path}'', entry_errors = [''python -m venv'', ''python venv {path}'']\<rparr>,
            \<lparr>entry_correct = ''python -m pip install {package}'', entry_errors = [''python -m pip instal {package}'']\<rparr>,
            \<lparr>entry_correct = (''python -c '{code}'' @ [CHR 0x27]), entry_errors = [''python -c {code}'']\<rparr>]),
         (''node'',
           [\<lparr>entry_correct = ''node {file}'', entry_errors = [''nod {file}'', ''nodee {file}'']\<rparr>,
            \<lparr>entry_correct = (''node -e '{code}'' @ [CHR 0x27]), entry_errors = [''node -e {code}'']\<rparr>]),
         (''go'',
           [\<lparr>entry_correct = ''go run {file}'', entry_errors = [''go rnu {file}'', ''go exec {file}'']\<rparr>,
            \<lparr>entry_correct = ''go build'', entry_errors = [''go biuld'', ''go compile'']\<rparr>,
            \<lparr>entry_correct = ''go test'', entry_errors = [''go tets'', ''go tests'']\<rparr>,
            \<lparr>entry_correct = ''go mod init {module}'', entry_errors = [''go mod init'', ''go init {module}'']\<rparr>,
            \<lparr>entry_correct = ''go mod tidy'', entry_errors = [''go mod clean'', ''go tidy'']\<rparr>]),
         (''java'',
           [\<lparr>entry_correct = ''java {class}'', entry_errors = [''jav {class}'', ''java {class}.class'']\<rparr>,
            \<lparr>entry_correct = ''javac {file}'', entry_errors = [''javac {file}.java'', ''java -c {file}'']\<rparr>])]),
      (''system'',
        [
         (''systemctl'',
           [\<lparr>entry_correct = ''sudo systemctl start {service}'', entry_errors = [''systemctl start {service}'', ''sudo systemctl strart {service}'']\<rparr>,
            \<lparr>entry_correct = ''sudo systemctl stop {service}'', entry_errors = [''systemctl stop {service}'', ''sudo systemctl stopp {service}'']\<rparr>,
            \<lparr>entry_correct = ''sudo systemctl restart {service}'', entry_errors = [''systemctl restart {service}'', ''sudo systemctl restar {service}'']\<rparr>,
            \<lparr>entry_correct = ''systemctl status {service}'', entry_errors = [''systemctl stauts {service}'', ''systemctl stat {service}'']\<rparr>,
            \<lparr>entry_correct = ''sudo systemctl enable {service}'', entry_errors = [''systemctl enable {service}'']\<rparr>]),
         (''journalctl'',
           [\<lparr>entry_correct = ''journalctl -u {service}'', entry_errors = [''journalctl {service}'', ''journalctl -U {service}'']\<rparr>,
            \<lparr>entry_correct = ''journalctl -f'', entry_errors = [''journalctl --follow'', ''journalctl -F'']\<rparr>])])]\<close>


subsection \<open>Synthesis\<close>

definition all_tools :: "(string \<times> string \<times> entry) list" where
  \<comment> \<open>the catalog flattened to \<open>(category, tool_name, cmd)\<close> triples\<close>
  "all_tools =
     concat (map (\<lambda>(category, tools).
       concat (map (\<lambda>(tool_name, commands).
         map (\<lambda>cmd. (category, tool_name, cmd)) commands) tools)) TOOLS)"

definition tools_incorrect_candidate ::
  "string list \<Rightarrow> (string \<times> string) list \<Rightarrow> string \<Rightarrow> rng \<Rightarrow> string \<times> rng" where
  \<comment> \<open>the statement \<open>if errors and self.rng.random() < 0.7: ... else: ...\<close> of
      \<open>_create_example\<close>, which selects the incorrect candidate\<close>
  "tools_incorrect_candidate errs variables correct g =
     (if errs \<noteq> [] then
        let (r, g) = rng_random g in
        if r < 7 / 10 then
          let (error_template, g) = rng_choice errs g
          in (expand_template error_template variables, g)
        else generate_typo correct 1 g
      else generate_typo correct 1 g)"

fun tools_retry ::
  "nat \<Rightarrow> string list \<Rightarrow> (string \<times> string) list \<Rightarrow> string \<Rightarrow> string \<Rightarrow> rng \<Rightarrow> string \<times> rng" where
  \<comment> \<open>\<open>while self._is_single_char_correction(incorrect, correct) and retry < max_retries\<close>,
      with \<open>max_retries - retry\<close> rounds left\<close>
  "tools_retry 0 errs variables incorrect correct g = (incorrect, g)"
| "tools_retry (Suc rounds) errs variables incorrect correct g =
     (if is_single_char_correction incorrect correct then
        let (incorrect, g) = remove_space correct g;
            (incorrect, g) =
              (if incorrect = correct \<or> is_single_char_correction incorrect correct then
                 (if errs \<noteq> [] then
                    let (error_template, g) = rng_choice errs g
                    in (expand_template error_template variables, g)
                  else generate_typo correct 1 g)
               else (incorrect, g))
        in tools_retry rounds errs variables incorrect correct g
      else (incorrect, g))"

definition tools_create_example ::
  "string \<Rightarrow> string \<Rightarrow> string \<Rightarrow> entry \<Rightarrow> rng \<Rightarrow> TrainingExample option \<times> rng" where
  "tools_create_example shell category tool_name cmd g =
     (let correct_template = entry_correct cmd; errs = entry_errors cmd in
      if correct_template = [] then (None, g)
      else
        let (variables, g) = extract_variables correct_template g;
            correct = expand_template correct_template variables;
            (incorrect, g) = tools_incorrect_candidate errs variables correct g;
            (incorrect, g) = tools_retry 3 errs variables incorrect correct g
        in if str_strip incorrect = str_strip correct then (None, g)
           else (Some \<lparr>ex_shell = shell, incorrect_command = incorrect,
                         correct_command = correct, ex_category = ''tools_'' @ category,
                         ex_error_type = ''tool_specific'', ex_source = ''tools_pattern'',
                         ex_metadata = [(''tool'', tool_name)]\<rparr>, g))"

definition tools_iteration :: "string \<Rightarrow> rng \<Rightarrow> TrainingExample option \<times> rng" where
  \<comment> \<open>one round of the loops of \<open>generate\<close>: a uniform draw from the flattened catalog\<close>
  "tools_iteration shell g =
     (let ((category, tool_name, cmd), g) = rng_choice all_tools g
      in tools_create_example shell category tool_name cmd g)"

definition max_single_char :: "nat \<Rightarrow> nat" where
  \<comment> \<open>\<open>int(count * self.MAX_SINGLE_CHAR_PERCENTAGE)\<close>, with \<open>MAX_SINGLE_CHAR_PERCENTAGE = 0.05\<close>\<close>
  "max_single_char count = nat \<lfloor>of_nat count * (5 / 100 :: rat)\<rfloor>"

definition tools_generate :: "nat \<Rightarrow> rng \<Rightarrow> TrainingExample list \<times> rng" where
  \<comment> \<open>\<open>ToolsGenerator.generate(count)\<close> from the generator's RNG state \<open>g\<close>\<close>
  "tools_generate count g =
     (let (examples, g) =
            for_shells (\<lambda>shell shell_count. repeat_collect shell_count (tools_iteration shell))
              (shell_counts count) g;
          examples = filter (\<lambda>ex. \<not> null_correction ex) examples;
          (examples, g) =
            regenerate 3 (\<lambda>n. repeat_collect n (tools_iteration ''bash'')) count examples g;
          (examples, g) = rng_shuffle examples g;
          examples = cap_single_char (max_single_char count) examples;
          (examples, g) = rng_shuffle examples g
      in (take count examples, g))"


section \<open>The single-command generator (DS1)\<close>

text \<open>
  The catalogs of this generator are the YAML templates that \<open>_load_templates\<close> reads:
  \<open>templates\<close> maps a shell to a mapping from category to the list of its entries.  The
  \<open>isinstance\<close> tests of \<open>_generate_for_shell\<close> drop every value of another shape before it
  is used, so the model takes the well-shaped part as its input.
\<close>

definition single_ERROR_DISTRIBUTION :: "(string \<times> rat) list" where
  "single_ERROR_DISTRIBUTION =
     [(''typo'', 3 / 20), (''wrong_flag'', 1 / 4), (''permission'', 3 / 20), (''path'', 1 / 5), (''syntax'', 1 / 4)]"

definition CATEGORIES :: "string list" where
  "CATEGORIES =
     [
      ''navigation'', ''file_operations'', ''search'', ''processes'', ''network'', ''git'',
      ''packages'', ''compression'', ''text'', ''system'', ''docker'', ''kubernetes'',
      ''variables'', ''help'']"

definition single_select_error_type :: "rng \<Rightarrow> string \<times> rng" where
  "single_select_error_type g =
     rng_choices (map fst single_ERROR_DISTRIBUTION) (map snd single_ERROR_DISTRIBUTION) g"

definition generate_typo_error :: "string \<Rightarrow> rng \<Rightarrow> string \<times> rng" where
  "generate_typo_error correct g =
     (let (error_subtype, g) =
            rng_choices
              [''char_swap'', ''char_delete'', ''char_double'', ''adjacent_key'', ''missing_space'']
              [5 / 100, 5 / 100, 5 / 100, 5 / 100, 80 / 100] g;
          words = str_split correct
      in
      if error_subtype = ''char_swap'' then generate_typo correct 1 g
      else if error_subtype = ''char_delete'' then
        (if words \<noteq> [] then
           let (idx, g) = rng_randint 0 (int (length words) - 1) g; idx = nat idx;
               word = words ! idx
           in if length word > 2 then
                let (pos, g) = rng_randint 1 (int (length word) - 1) g; pos = nat pos
                in (str_join '' '' (words[idx := take pos word @ drop (pos + 1) word]), g)
              else generate_typo correct (15 / 100) g
         else generate_typo correct (15 / 100) g)
      else if error_subtype = ''char_double'' then
        (if words \<noteq> [] then
           let (idx, g) = rng_randint 0 (int (length words) - 1) g; idx = nat idx;
               word = words ! idx
           in if length word > 1 then
                let (pos, g) = rng_randint 0 (int (length word) - 1) g; pos = nat pos
                in (str_join '' '' (words[idx := take pos word @ [word ! pos] @ drop pos word]), g)
              else generate_typo correct (15 / 100) g
         else generate_typo correct (15 / 100) g)
      else if error_subtype = ''adjacent_key'' then generate_typo correct 1 g
      else if error_subtype = ''missing_space'' then remove_space correct g
      else generate_typo correct (15 / 100) g)"

fun promote_first_flag :: "string list \<Rightarrow> string list" where
  \<comment> \<open>the loop that turns the first short flag of more than two characters into a long
      one: \<open>parts[i] = "-" + part; break\<close>\<close>
  "promote_first_flag [] = []"
| "promote_first_flag (part # parts) =
     (if prefix ''-'' part \<and> \<not> prefix ''--'' part \<and> length part > 2
      then (''-'' @ part) # parts
      else part # promote_first_flag parts)"

fun drop_flag_value :: "string list \<Rightarrow> string list" where
  \<comment> \<open>the loop that removes the argument after the first flag that has one:
      \<open>parts.pop(i + 1); break\<close>\<close>
  "drop_flag_value (p # q # parts) =
     (if prefix ''-'' p \<and> \<not> prefix ''-'' q then p # parts
      else p # drop_flag_value (q # parts))"
| "drop_flag_value parts = parts"

definition generate_flag_error :: "string \<Rightarrow> string \<Rightarrow> rng \<Rightarrow> string \<times> rng" where
  "generate_flag_error correct shell g =
     (let result = correct;
          result =
            (if str_contains result '' --'' then str_replace1 '' --'' '' -'' result
             else if str_contains result '' -'' \<and> \<not> str_contains result '' --''
             then str_join '' '' (promote_first_flag (str_split result))
             else result);
          (r, g) = rng_random g;
          result =
            (if r < 3 / 10 then str_join '' '' (drop_flag_value (str_split result)) else result)
      in if result \<noteq> correct then (result, g) else generate_typo correct (15 / 100) g)"

definition sudo_commands :: "string list" where
  "sudo_commands =
     [''apt'', ''apt-get'', ''yum'', ''dnf'', ''pacman'', ''systemctl'', ''service'', ''mount'',
      ''umount'', ''chown'', ''chmod'', ''useradd'', ''usermod'']"

definition generate_permission_error :: "string \<Rightarrow> string \<Rightarrow> string" where
  \<comment> \<open>draws nothing; every path but the first returns \<open>correct\<close>\<close>
  "generate_permission_error correct shell =
     (if prefix ''sudo '' correct then drop 5 correct
      else
        let words = str_split correct in
        if words \<noteq> [] \<and> list_ex (\<lambda>cmd. str_contains (hd words) cmd) sudo_commands
           \<and> \<not> prefix ''sudo'' correct
        then correct
        else if shell = ''powershell'' then correct
        else correct)"

fun merge_path_segments :: "string list \<Rightarrow> rng \<Rightarrow> string list \<times> rng" where
  \<comment> \<open>the loop over \<open>parts\<close> of the \<open>missing_slash\<close> error: the first part with more than
      two \<open>/\<close>-separated segments has two adjacent segments joined\<close>
  "merge_path_segments [] g = ([], g)"
| "merge_path_segments (part # parts) g =
     (if str_contains part ''/'' \<and> length (str_split_sep ''/'' part) > 2 then
        let segments = str_split_sep ''/'' part;
            (idx, g) = rng_randint 0 (int (length segments) - 2) g; idx = nat idx;
            segments = segments[idx := segments ! idx @ segments ! (idx + 1)];
            segments = pop_at (idx + 1) segments
        in (str_join ''/'' segments # parts, g)
      else
        let (parts, g) = merge_path_segments parts g in (part # parts, g))"

definition generate_path_error :: "string \<Rightarrow> rng \<Rightarrow> string \<times> rng" where
  "generate_path_error correct g =
     (let (error_subtype, g) =
            rng_choice
              [''relative_absolute'', ''missing_slash'', ''typo_in_path'', ''wrong_separator''] g;
          result = correct;
          (result, g) =
            (if error_subtype = ''relative_absolute'' then
               (if str_contains result ''./'' then (str_replace1 ''./'' ''/'' result, g)
                else if prefix ''/'' result then (''.'' @ result, g)
                else (result, g))
             else if error_subtype = ''missing_slash'' then
               (if str_contains result ''/'' then
                  let (parts, g) = merge_path_segments (str_split result) g
                  in (str_join '' '' parts, g)
                else (result, g))
             else if error_subtype = ''typo_in_path'' then generate_typo correct 1 g
             else if error_subtype = ''wrong_separator'' then
               (if str_contains result ''/'' then
                  let (r, g) = rng_random g
                  in if r < 1 / 2 then (str_replace1 ''/'' [CHR 0x5C] result, g)
                     else (result, g)
                else (result, g))
             else (result, g))
      in if result \<noteq> correct then (result, g) else generate_typo correct (15 / 100) g)"

fun wrong_operator :: "(string \<times> string) list \<Rightarrow> string \<Rightarrow> string" where
  \<comment> \<open>\<open>for correct_op, wrong_op in operators: if correct_op in result: ...; break\<close>\<close>
  "wrong_operator [] result = result"
| "wrong_operator ((correct_op, wrong_op) # operators) result =
     (if str_contains result correct_op then str_replace1 correct_op wrong_op result
      else wrong_operator operators result)"

definition generate_syntax_error :: "string \<Rightarrow> string \<Rightarrow> rng \<Rightarrow> string \<times> rng" where
  "generate_syntax_error correct shell g =
     (let (error_subtype, g) =
            rng_choice
              [''missing_quote'', ''missing_escape'', ''wrong_operator'', ''extra_character''] g;
          result = correct;
          (result, g) =
            (if error_subtype = ''missing_quote'' then
               (if str_contains result [CHR 0x22] then (str_replace1 [CHR 0x22] [] result, g)
                else if str_contains result [CHR 0x27] then (str_replace1 [CHR 0x27] [] result, g)
                else (result, g))
             else if error_subtype = ''missing_escape'' then
               (if str_contains result [CHR 0x5C] then (str_replace1 [CHR 0x5C] [] result, g)
                else (result, g))
             else if error_subtype = ''wrong_operator'' then
               (wrong_operator
                  [(''&&'', ''&''), (''||'', ''|''), (''>>'', ''>''), (''=='', ''='')] result, g)
             else if error_subtype = ''extra_character'' then
               (let words = str_split result in
                if words \<noteq> [] then
                  let (idx, g) = rng_randint 0 (int (length words) - 1) g; idx = nat idx;
                      word = words ! idx;
                      (pos, g) = rng_randint 0 (int (length word)) g; pos = nat pos;
                      (char, g) = rng_choice ''{}[]();'' g
                  in (str_join '' '' (words[idx := take pos word @ [char] @ drop pos word]), g)
                else (result, g))
             else (result, g))
      in if result \<noteq> correct then (result, g) else generate_typo correct (15 / 100) g)"

definition generate_incorrect ::
  "string \<Rightarrow> entry \<Rightarrow> string \<Rightarrow> string \<Rightarrow> (string \<times> string) list \<Rightarrow> rng \<Rightarrow> string \<times> rng" where
  \<comment> \<open>\<open>_generate_incorrect\<close>; the first component of \<open>predefined\<close> tells whether the
      function has returned the expansion of a predefined error\<close>
  "generate_incorrect correct entry error_type shell variables g =
     (let (predefined, g) =
            (if entry_errors entry \<noteq> [] then
               let (r, g) = rng_random g in
               if r < 6 / 10 then
                 let (error, g) = rng_choice (entry_errors entry) g
                 in (Some (expand_template error variables), g)
               else (None, g)
             else (None, g))
      in case predefined of
           Some incorrect \<Rightarrow> (incorrect, g)
         | None \<Rightarrow>
             if error_type = ''typo'' then generate_typo_error correct g
             else if error_type = ''wrong_flag'' then generate_flag_error correct shell g
             else if error_type = ''permission'' then (generate_permission_error correct shell, g)
             else if error_type = ''path'' then generate_path_error correct g
             else if error_type = ''syntax'' then generate_syntax_error correct shell g
             else generate_typo correct (15 / 100) g)"

fun single_retry :: "nat \<Rightarrow> string \<Rightarrow> string \<Rightarrow> string \<Rightarrow> rng \<Rightarrow> string \<times> rng" where
  \<comment> \<open>\<open>while self._is_single_char_correction(incorrect_cmd, correct_cmd) and retry <
      max_retries\<close>, with \<open>max_retries - retry\<close> rounds left\<close>
  "single_retry 0 shell incorrect_cmd correct_cmd g = (incorrect_cmd, g)"
| "single_retry (Suc rounds) shell incorrect_cmd correct_cmd g =
     (if is_single_char_correction incorrect_cmd correct_cmd then
        let (incorrect_cmd, g) = remove_space correct_cmd g;
            (incorrect_cmd, g) =
              (if incorrect_cmd = correct_cmd
                  \<or> is_single_char_correction incorrect_cmd correct_cmd
               then generate_flag_error correct_cmd shell g else (incorrect_cmd, g));
            (incorrect_cmd, g) =
              (if incorrect_cmd = correct_cmd
                  \<or> is_single_char_correction incorrect_cmd correct_cmd
               then generate_path_error correct_cmd g else (incorrect_cmd, g))
        in single_retry rounds shell incorrect_cmd correct_cmd g
      else (incorrect_cmd, g))"

definition create_example_from_entry ::
  "string \<Rightarrow> string \<Rightarrow> entry \<Rightarrow> rng \<Rightarrow> TrainingExample option \<times> rng" where
  "create_example_from_entry shell category entry g =
     (let correct_template = entry_correct entry in
      if correct_template = [] then (None, g)
      else
        let (variables, g) = extract_variables correct_template g;
            correct_cmd = expand_template correct_template variables;
            (error_type, g) = single_select_error_type g;
            (incorrect_cmd, g) = generate_incorrect correct_cmd entry error_type shell variables g;
            (incorrect_cmd, g) =
              (if incorrect_cmd = correct_cmd then generate_typo correct_cmd 1 g
               else (incorrect_cmd, g));
            (incorrect_cmd, g) = single_retry 3 shell incorrect_cmd correct_cmd g
        in if str_strip incorrect_cmd = str_strip correct_cmd then (None, g)
           else (Some \<lparr>ex_shell = shell, incorrect_command = incorrect_cmd,
                         correct_command = correct_cmd, ex_category = category,
                         ex_error_type = error_type, ex_source = ''template'',
                         ex_metadata = [(''template'', correct_template)]\<rparr>, g))"

definition single_generate_for_shell ::
  "(string \<times> (string \<times> entry list) list) list \<Rightarrow> string \<Rightarrow> nat \<Rightarrow> rng
     \<Rightarrow> TrainingExample list \<times> rng" where
  "single_generate_for_shell templates shell count g =
     (let template = dict_get templates shell [];
          all_entries =
            concat (map (\<lambda>category.
              case map_of template category of
                Some entries \<Rightarrow> map (\<lambda>entry. (category, entry)) entries
              | None \<Rightarrow> []) CATEGORIES)
      in if all_entries = [] then ([], g)
         else repeat_collect count
                (\<lambda>g. let ((category, entry), g) = rng_choice all_entries g
                      in create_example_from_entry shell category entry g) g)"

definition single_generate ::
  "(string \<times> (string \<times> entry list) list) list \<Rightarrow> nat \<Rightarrow> rng \<Rightarrow> TrainingExample list \<times> rng" where
  \<comment> \<open>\<open>SingleCommandGenerator.generate(count)\<close> with the loaded templates, from the
      generator's RNG state \<open>g\<close>\<close>
  "single_generate templates count g =
     (let (examples, g) =
            for_shells (\<lambda>shell shell_count g.
                if map_of templates shell = None then ([], g)
                else single_generate_for_shell templates shell shell_count g)
              (shell_counts count) g;
          examples = filter (\<lambda>ex. \<not> null_correction ex) examples;
          (examples, g) =
            regenerate 3 (single_generate_for_shell templates ''bash'') count examples g;
          (examples, g) = rng_shuffle examples g;
          examples = cap_single_char (max_single_char count) examples;
          (examples, g) = rng_shuffle examples g
      in (take count examples, g))"


section \<open>The natural-language generator (DS3)\<close>

subsection \<open>The catalogs of \<open>NaturalLanguageGenerator\<close>\<close>

definition NL_TYPE_DISTRIBUTION :: "(string \<times> rat) list" where
  "NL_TYPE_DISTRIBUTION =
     [(''imperative'', 2 / 5), (''question'', 1 / 5), (''mixed'', 1 / 4), (''intent'', 3 / 20)]"

definition NL_PATTERNS :: "(string \<times> (string \<times> (string \<times> string) list) list) list" where
  \<open>NL_PATTERNS =
     [
      (''bash'',
        [
         (''imperative'',
           [
            (''list all files'', ''ls -la''), (''list files'', ''ls''),
            (''show hidden files'', ''ls -la''), (''list files sorted by size'', ''ls -lS''),
            (''list files sorted by date'', ''ls -lt''), (''show current directory'', ''pwd''),
            (''go to home'', ''cd ~''), (''go up one directory'', ''cd ..''),
            (''go to parent'', ''cd ..''), (''create directory {path}'', ''mkdir -p {path}''),
            (''make folder {path}'', ''mkdir -p {path}''),
            (''delete file {file}'', ''rm {file}''), (''remove {file}'', ''rm {file}''),
            (''delete folder {path}'', ''rm -rf {path}''),
            (''copy {src} to {dst}'', ''cp {src} {dst}''),
            (''copy directory {src} to {dst}'', ''cp -r {src} {dst}''),
            (''move {src} to {dst}'', ''mv {src} {dst}''),
            (''rename {old} to {new}'', ''mv {old} {new}''), (''show {file}'', ''cat {file}''),
            (''print {file}'', ''cat {file}''), (''display {file} contents'', ''cat {file}''),
            (''edit {file}'', ''nano {file}''), (''open {file} in vim'', ''vim {file}''),
            (''find files named {pattern}'', (''find . -name '{pattern}'' @ [CHR 0x27])),
            (''search for {pattern}'', ''grep -r '{pattern}' .''),
            (''search {pattern} in {file}'', ''grep '{pattern}' {file}''),
            (''show running processes'', ''ps aux''), (''list processes'', ''ps aux''),
            (''kill process {pid}'', ''kill -9 {pid}''),
            (''stop {process}'', ''pkill {process}''), (''show disk space'', ''df -h''),
            (''check disk usage'', ''df -h''), (''show memory usage'', ''free -h''),
            (''check memory'', ''free -h''), (''show system info'', ''uname -a''),
            (''download {url}'', ''curl -O {url}''), (''fetch {url}'', ''curl {url}''),
            (''ping {host}'', ''ping -c 4 {host}''),
            (''check if {host} is up'', ''ping -c 4 {host}''),
            (''connect to {host}'', ''ssh {user}@'' @ ''{host}''),
            (''ssh to {host}'', ''ssh {user}@'' @ ''{host}''),
            (''compress {dir}'', ''tar -czf {dir}.tar.gz {dir}''),
            (''zip {dir}'', ''zip -r {dir}.zip {dir}''),
            (''extract {file}'', ''tar -xzf {file}''), (''unzip {file}'', ''unzip {file}''),
            (''make {file} executable'', ''chmod +x {file}''),
            (''change owner of {file} to {user}'', ''chown {user} {file}''),
            (''count lines in {file}'', ''wc -l {file}''), (''sort {file}'', ''sort {file}''),
            (''remove duplicates from {file}'', ''sort -u {file}''),
            (''show first {n} lines of {file}'', ''head -n {n} {file}''),
            (''show last {n} lines of {file}'', ''tail -n {n} {file}''),
            (''follow {file}'', ''tail -f {file}''),
            (''watch {file} for changes'', ''tail -f {file}'')]),
         (''question'',
           [
            (''what's my ip'', ''ip addr show''), (''what is my ip address'', ''ip addr show''),
            (''how much disk space'', ''df -h''), (''how much memory'', ''free -h''),
            (''what's running'', ''ps aux''), (''what processes are running'', ''ps aux''),
            (''where am i'', ''pwd''), (''what directory'', ''pwd''),
            (''who am i'', ''whoami''), (''what user am i'', ''whoami''),
            (''what's the date'', ''date''), (''what time is it'', ''date''),
            (''what's in this directory'', ''ls -la''), (''what's the hostname'', ''hostname''),
            (''what version of linux'', ''uname -r''), (''what kernel version'', ''uname -r''),
            (''is {process} running'', ''pgrep {process}''),
            (''what's listening on port {n}'', ''ss -tulpn | grep {n}''),
            (''what's using port {n}'', ''lsof -i :{n}'')]),
         (''mixed'',
           [
            (''grep for {pattern} in {file}'', ''grep '{pattern}' {file}''),
            (''grep {pattern} recursively'', ''grep -r '{pattern}' .''),
            (''find large files'', ''find . -type f -size +100M''),
            (''find files modified today'', ''find . -mtime 0''),
            (''find empty files'', ''find . -empty''),
            (''cat {file} and grep {pattern}'', ''grep '{pattern}' {file}''),
            (''ls and sort by size'', ''ls -lS''),
            (''ps and filter {process}'', ''ps aux | grep {process}''),
            (''curl {url} and save'', ''curl -O {url}''), (''wget {url}'', ''wget {url}''),
            (''tar extract {file}'', ''tar -xzf {file}''),
            (''chmod 755 {file}'', ''chmod 755 {file}''),
            (''chown {user}:{group} {file}'', ''chown {user}:{group} {file}'')]),
         (''intent'',
           [
            (''clean up docker'', ''docker system prune -a''),
            (''remove unused docker images'', ''docker image prune -a''),
            (''update system'', ''sudo apt update && sudo apt upgrade -y''),
            (''update packages'', ''sudo apt update && sudo apt upgrade -y''),
            (''install {package}'', ''sudo apt install {package}''),
            (''uninstall {package}'', ''sudo apt remove {package}''),
            (''restart {service}'', ''sudo systemctl restart {service}''),
            (''start {service}'', ''sudo systemctl start {service}''),
            (''stop {service}'', ''sudo systemctl stop {service}''),
            (''check {service} status'', ''sudo systemctl status {service}''),
            (''enable {service}'', ''sudo systemctl enable {service}''),
            (''clear terminal'', ''clear''), (''clear screen'', ''clear''),
            (''exit terminal'', ''exit''), (''logout'', ''exit''),
            (''reboot'', ''sudo reboot''), (''shutdown'', ''sudo shutdown -h now''),
            (''backup {src} to {dst}'', ''rsync -av {src} {dst}''),
            (''sync {src} to {dst}'', ''rsync -av {src} {dst}'')])]),
      (''zsh'',
        [
         (''imperative'',
           [
            (''list all files'', ''ls -la''), (''list all python files'', ''ls **/*.py''),
            (''show current directory'', ''pwd''),
            (''create directory {path}'', ''mkdir -p {path}''),
            (''find files named {pattern}'', ''ls **/{pattern}'')]),
         (''question'',
           [
            (''what's my ip'', ''ip addr show''), (''how much disk space'', ''df -h'')]),
         (''mixed'',
           [
            (''grep for {pattern} in python files'', ''grep -r '{pattern}' **/*.py'')]),
         (''intent'',
           [
            (''update system'', ''sudo apt update && sudo apt upgrade -y'')])]),
      (''powershell'',
        [
         (''imperative'',
           [
            (''list all files'', ''Get-ChildItem''), (''list files'', ''Get-ChildItem''),
            (''show hidden files'', ''Get-ChildItem -Force''),
            (''show current directory'', ''Get-Location''),
            (''go to home'', ''Set-Location ~''),
            (''go up one directory'', ''Set-Location ..''),
            (''create directory {path}'', ''New-Item -ItemType Directory -Path {path}''),
            (''make folder {path}'', ''New-Item -ItemType Directory -Path {path}''),
            (''delete file {file}'', ''Remove-Item {file}''),
            (''remove {file}'', ''Remove-Item {file}''),
            (''delete folder {path}'', ''Remove-Item {path} -Recurse -Force''),
            (''copy {src} to {dst}'', ''Copy-Item {src} -Destination {dst}''),
            (''move {src} to {dst}'', ''Move-Item {src} -Destination {dst}''),
            (''show {file}'', ''Get-Content {file}''),
            (''print {file}'', ''Get-Content {file}''),
            (''show running processes'', ''Get-Process''),
            (''list processes'', ''Get-Process''),
            (''kill process {name}'', ''Stop-Process -Name {name}''),
            (''stop {process}'', ''Stop-Process -Name {process}''),
            (''show services'', ''Get-Service''),
            (''restart {service}'', ''Restart-Service {service}'')]),
         (''question'',
           [
            (''what's my ip'', ''Get-NetIPAddress''), (''how much disk space'', ''Get-Volume''),
            (''what's running'', ''Get-Process''), (''where am i'', ''Get-Location''),
            (''who am i'', ''$env:USERNAME''), (''what computer name'', ''$env:COMPUTERNAME'')]),
         (''mixed'',
           [
            (''find {pattern} in files'', (''Get-ChildItem -Recurse | Select-String '{pattern}'' @ [CHR 0x27])),
            (''grep for {pattern}'', (''Select-String -Path * -Pattern '{pattern}'' @ [CHR 0x27])),
            (''filter processes by cpu'', ''Get-Process | Sort-Object CPU -Descending'')]),
         (''intent'',
           [
            (''install {package}'', ''winget install {package}''),
            (''update system'', ''winget upgrade --all''), (''clear terminal'', ''Clear-Host''),
            (''exit terminal'', ''exit'')])]),
      (''cmd'',
        [
         (''imperative'',
           [
            (''list all files'', ''dir /a''), (''list files'', ''dir''),
            (''show current directory'', ''cd''), (''go up one directory'', ''cd ..''),
            (''create directory {path}'', ''mkdir {path}''),
            (''delete file {file}'', ''del {file}''),
            (''delete folder {path}'', ''rmdir /s /q {path}''),
            (''copy {src} to {dst}'', ''copy {src} {dst}''),
            (''move {src} to {dst}'', ''move {src} {dst}''), (''show {file}'', ''type {file}''),
            (''show running processes'', ''tasklist''),
            (''kill process {name}'', ''taskkill /im {name} /f'')]),
         (''question'',
           [
            (''what's my ip'', ''ipconfig''), (''what's running'', ''tasklist''),
            (''where am i'', ''cd''), (''who am i'', ''whoami'')]),
         (''mixed'',
           [
            (''find {pattern} in files'', ''findstr /s "{pattern}" *.*'')]),
         (''intent'',
           [
            (''clear screen'', ''cls''), (''reboot'', ''shutdown /r /t 0''),
            (''shutdown'', ''shutdown /s /t 0'')])]),
      (''fish'',
        [
         (''imperative'',
           [
            (''list all files'', ''ls -la''), (''show current directory'', ''pwd''),
            (''set variable {var} to {value}'', ''set {var} {value}''),
            (''export {var}'', ''set -x {var} {value}'')]),
         (''question'',
           [
            (''what's my ip'', ''ip addr show'')]),
         (''mixed'',
           [
            (''calculate {expression}'', (''math '{expression}'' @ [CHR 0x27]))]),
         (''intent'',
           [
            (''update completions'', ''fish_update_completions'')])]),
      (''tcsh'',
        [
         (''imperative'',
           [
            (''list all files'', ''ls -la''),
            (''set environment variable {var}'', ''setenv {var} {value}'')]),
         (''question'',
           [
            (''what's my ip'', ''ifconfig'')]),
         (''mixed'', []),
         (''intent'', [])])]\<close>

definition GIT_PATTERNS :: "(string \<times> string) list" where
  \<open>GIT_PATTERNS =
     [
      (''check git status'', ''git status''), (''what changed'', ''git status''),
      (''show changes'', ''git diff''), (''stage all changes'', ''git add .''),
      (''add all files'', ''git add .''),
      (''commit with message {message}'', (''git commit -m '{message}'' @ [CHR 0x27])),
      (''save changes as {message}'', (''git commit -m '{message}'' @ [CHR 0x27])),
      (''push changes'', ''git push''), (''push to {branch}'', ''git push origin {branch}''),
      (''pull latest'', ''git pull''), (''pull from {branch}'', ''git pull origin {branch}''),
      (''switch to {branch}'', ''git checkout {branch}''),
      (''create branch {branch}'', ''git checkout -b {branch}''),
      (''new branch {branch}'', ''git checkout -b {branch}''),
      (''merge {branch}'', ''git merge {branch}''),
      (''show commit history'', ''git log --oneline''),
      (''git history'', ''git log --oneline''), (''stash changes'', ''git stash''),
      (''apply stash'', ''git stash pop''), (''clone {url}'', ''git clone {url}''),
      (''download repo {url}'', ''git clone {url}''),
      (''undo last commit'', ''git reset --soft HEAD~1''),
      (''discard changes'', ''git checkout .'')]\<close>

definition DOCKER_PATTERNS :: "(string \<times> string) list" where
  \<open>DOCKER_PATTERNS =
     [
      (''list containers'', ''docker ps''), (''show all containers'', ''docker ps -a''),
      (''list images'', ''docker images''), (''run {image}'', ''docker run -it {image}''),
      (''start {container}'', ''docker start {container}''),
      (''stop {container}'', ''docker stop {container}''),
      (''remove container {container}'', ''docker rm {container}''),
      (''remove image {image}'', ''docker rmi {image}''),
      (''shell into {container}'', ''docker exec -it {container} bash''),
      (''enter container {container}'', ''docker exec -it {container} bash''),
      (''show {container} logs'', ''docker logs {container}''),
      (''build docker image'', ''docker build -t {image} .''),
      (''docker compose up'', ''docker-compose up -d''),
      (''start services'', ''docker-compose up -d''),
      (''stop services'', ''docker-compose down''),
      (''clean up docker'', ''docker system prune -a'')]\<close>

definition K8S_PATTERNS :: "(string \<times> string) list" where
  \<open>K8S_PATTERNS =
     [
      (''check pod status'', ''kubectl get pods''),
      (''list all pods'', ''kubectl get pods -A''),
      (''show pods in all namespaces'', ''kubectl get pods --all-namespaces''),
      (''what pods are running'', ''kubectl get pods''),
      (''describe pod {pod}'', ''kubectl describe pod {pod}''),
      (''get pod details {pod}'', ''kubectl describe pod {pod}''),
      (''show pod logs {pod}'', ''kubectl logs {pod}''),
      (''tail pod logs {pod}'', ''kubectl logs -f {pod}''),
      (''follow logs for {pod}'', ''kubectl logs -f {pod}''),
      (''exec into pod {pod}'', ''kubectl exec -it {pod} -- bash''),
      (''shell into pod {pod}'', ''kubectl exec -it {pod} -- bash''),
      (''restart deployment {name}'', ''kubectl rollout restart deployment/{name}''),
      (''scale deployment {name} to {n}'', ''kubectl scale deployment/{name} --replicas={n}''),
      (''scale {name} to {n} replicas'', ''kubectl scale deployment/{name} --replicas={n}''),
      (''get deployments'', ''kubectl get deployments''),
      (''list deployments'', ''kubectl get deployments''),
      (''show services'', ''kubectl get services''), (''list services'', ''kubectl get svc''),
      (''apply config {file}'', ''kubectl apply -f {file}''),
      (''deploy {file}'', ''kubectl apply -f {file}''),
      (''delete pod {pod}'', ''kubectl delete pod {pod}''),
      (''port forward {pod} {n}'', ''kubectl port-forward {pod} {n}:{n}''),
      (''forward port {n} to pod {pod}'', ''kubectl port-forward {pod} {n}:{n}''),
      (''get configmaps'', ''kubectl get configmaps''),
      (''get secrets'', ''kubectl get secrets''),
      (''describe service {name}'', ''kubectl describe svc {name}''),
      (''check cluster info'', ''kubectl cluster-info''),
      (''get nodes'', ''kubectl get nodes''), (''show node status'', ''kubectl get nodes'')]\<close>

definition WORKFLOW_PATTERNS :: "(string \<times> string) list" where
  \<open>WORKFLOW_PATTERNS =
     [
      (''deploy to production'', ''git pull && npm run build && npm run deploy''),
      (''setup dev environment'', ''npm install && npm run setup && npm start''),
      (''clean and rebuild'', ''npm run clean && npm run build''),
      (''run tests then push'', ''npm test && git push''),
      (''build and deploy'', ''docker build -t {image} . && docker push {image}''),
      (''backup database'', ''pg_dump -U postgres {name} > {name}_backup.sql''),
      (''restore database'', ''psql -U postgres {name} < {file}''),
      (''update and upgrade'', ''sudo apt update && sudo apt upgrade -y''),
      (''clean npm cache'', ''npm cache clean --force && rm -rf node_modules && npm install''),
      (''reset git branch'', ''git fetch origin && git reset --hard origin/{branch}''),
      (''deploy container'', ''docker-compose down && docker-compose pull && docker-compose up -d''),
      (''full stack deploy'', ''git pull && npm install && npm run build && pm2 restart all''),
      (''restart services'', ''sudo systemctl stop {service} && sudo systemctl start {service}'')]\<close>

definition DEBUG_PATTERNS :: "(string \<times> string) list" where
  \<open>DEBUG_PATTERNS =
     [
      (''check open ports'', ''ss -tulpn''), (''list listening ports'', ''netstat -tlnp''),
      (''monitor memory'', ''watch -n 1 free -h''),
      (''watch disk space'', ''watch -n 1 df -h''), (''monitor cpu'', ''htop''),
      (''check load average'', ''uptime''), (''show system logs'', ''journalctl -xe''),
      (''check recent logs'', ''journalctl -n 100''),
      (''debug network to {host}'', ''ping -c 4 {host} && traceroute {host}''),
      (''test dns {host}'', ''nslookup {host}''),
      (''check dns resolution {host}'', ''dig {host}''),
      (''show firewall rules'', ''sudo iptables -L''),
      (''check failed logins'', ''grep 'Failed' /var/log/auth.log | tail -20''),
      (''show last logins'', ''last -10''), (''check disk io'', ''iostat -x 1 5''),
      (''monitor network traffic'', ''iftop''), (''trace system calls'', ''strace -p {pid}''),
      (''profile process {pid}'', ''top -p {pid}'')]\<close>


subsection \<open>Synthesis\<close>

definition select_nl_type :: "rng \<Rightarrow> string \<times> rng" where
  "select_nl_type g =
     rng_choices (map fst NL_TYPE_DISTRIBUTION) (map snd NL_TYPE_DISTRIBUTION) g"

definition nl_variations :: "string \<Rightarrow> (string \<Rightarrow> string) list" where
  \<comment> \<open>\<open>variations.get(nl_type, [lambda t: t])\<close>\<close>
  "nl_variations nl_type =
     (if nl_type = ''imperative'' then
        [\<lambda>t. t, \<lambda>t. ''please '' @ t, \<lambda>t. ''can you '' @ t, \<lambda>t. t @ '' please'',
         \<lambda>t. ''I want to '' @ t, \<lambda>t. ''I need to '' @ t]
      else if nl_type = ''question'' then
        [\<lambda>t. t, \<lambda>t. t @ ''?'', \<lambda>t. ''can you tell me '' @ t, \<lambda>t. ''I want to know '' @ t]
      else if nl_type = ''mixed'' then
        [\<lambda>t. t, \<lambda>t. ''do a '' @ t, \<lambda>t. ''run '' @ t]
      else if nl_type = ''intent'' then
        [\<lambda>t. t, \<lambda>t. ''I want to '' @ t, \<lambda>t. ''help me '' @ t, \<lambda>t. ''please '' @ t]
      else [\<lambda>t. t])"

definition add_nl_variation :: "string \<Rightarrow> string \<Rightarrow> rng \<Rightarrow> string \<times> rng" where
  "add_nl_variation txt nl_type g =
     (let (variation, g) = rng_choice (nl_variations nl_type) g in (variation txt, g))"

definition nl_iteration ::
  "string \<Rightarrow> (string \<times> (string \<times> string) list) list \<Rightarrow> rng \<Rightarrow> TrainingExample option \<times> rng" where
  \<comment> \<open>one round of the loop of \<open>_generate_for_shell\<close>\<close>
  "nl_iteration shell patterns g =
     (let (nl_type, g) = select_nl_type g;
          type_patterns = dict_get patterns nl_type [];
          (type_patterns, g) =
            (if nl_type \<in> set [''imperative'', ''intent'']
                \<and> shell \<in> set [''bash'', ''zsh'', ''powershell''] then
               let (r, g) = rng_random g;
                   type_patterns =
                     (if r < 25 / 100 then GIT_PATTERNS @ type_patterns else type_patterns);
                   (r, g) = rng_random g;
                   type_patterns =
                     (if r < 15 / 100 then DOCKER_PATTERNS @ type_patterns else type_patterns);
                   (r, g) = rng_random g;
                   type_patterns =
                     (if r < 20 / 100 then K8S_PATTERNS @ type_patterns else type_patterns);
                   (r, g) = rng_random g;
                   type_patterns =
                     (if r < 15 / 100 then WORKFLOW_PATTERNS @ type_patterns else type_patterns);
                   (r, g) = rng_random g;
                   type_patterns =
                     (if r < 10 / 100 then DEBUG_PATTERNS @ type_patterns else type_patterns)
               in (type_patterns, g)
             else (type_patterns, g));
          type_patterns =
            (if type_patterns = [] then dict_get patterns ''imperative'' [] else type_patterns)
      in if type_patterns = [] then (None, g)
         else
           let ((nl_text, command), g) = rng_choice type_patterns g;
               (variables, g) = extract_variables (nl_text @ '' '' @ command) g;
               nl_text = expand_template nl_text variables;
               command = expand_template command variables;
               (nl_text, g) = add_nl_variation nl_text nl_type g
           in (Some \<lparr>ex_shell = shell, incorrect_command = nl_text,
                         correct_command = command, ex_category = ''natural_language'',
                         ex_error_type = nl_type, ex_source = ''nl_pattern'',
                         ex_metadata = []\<rparr>, g))"

definition nl_generate_for_shell :: "string \<Rightarrow> nat \<Rightarrow> rng \<Rightarrow> TrainingExample list \<times> rng" where
  "nl_generate_for_shell shell count g =
     (let patterns = dict_get NL_PATTERNS shell (dict_get NL_PATTERNS ''bash'' [])
      in repeat_collect count (nl_iteration shell patterns) g)"

definition nl_generate :: "nat \<Rightarrow> rng \<Rightarrow> TrainingExample list \<times> rng" where
  \<comment> \<open>\<open>NaturalLanguageGenerator.generate(count)\<close> from the generator's RNG state \<open>g\<close>\<close>
  "nl_generate count g =
     (let (examples, g) = for_shells nl_generate_for_shell (shell_counts count) g;
          examples = filter (\<lambda>ex. \<not> null_correction ex) examples;
          (examples, g) = rng_shuffle examples g
      in (take count examples, g))"


section \<open>Generator objects\<close>









section \<open>Specification-side definitions\<close>

definition single_char_spec :: "string \<Rightarrow> string \<Rightarrow> bool" where
  \<comment> \<open>the quality gate's predicate in the words of the specification: after trimming,
      equal length and exactly one differing position, or lengths one apart and the
      shorter is the longer with one character removed\<close>
  "single_char_spec a b =
     (let a' = str_strip a; b' = str_strip b in
      (length a' = length b' \<and> card {i. i < length a' \<and> a' ! i \<noteq> b' ! i} = 1) \<or>
      (length b' = length a' + 1 \<and> (\<exists>i < length b'. a' = take i b' @ drop (Suc i) b')) \<or>
      (length a' = length b' + 1 \<and> (\<exists>i < length a'. b' = take i a' @ drop (Suc i) a')))"

definition token :: "string \<Rightarrow> bool" where
  \<comment> \<open>a whitespace-separated token: non-empty and free of whitespace\<close>
  "token w \<longleftrightarrow> w \<noteq> [] \<and> (\<forall>c \<in> set w. \<not> isspace c)"


definition replaced_first :: "string \<Rightarrow> string \<Rightarrow> string \<Rightarrow> string \<Rightarrow> bool" where
  \<comment> \<open>\<open>t\<close> is \<open>s\<close> with its first occurrence of \<open>old\<close> replaced by \<open>new\<close>\<close>
  "replaced_first old new s t \<longleftrightarrow>
     (\<exists>pre post. s = pre @ old @ post \<and> (\<forall>j < length pre. \<not> prefix old (drop j s))
        \<and> t = pre @ new @ post)"

definition placeholder :: "string \<Rightarrow> string" where
  "placeholder name = ''{'' @ name @ ''}''"

function expand_spec :: "string \<Rightarrow> (string \<times> string) list \<Rightarrow> string" where
  \<comment> \<open>expansion in the words of the specification: one pass over the template in which
      every occurrence of a bound placeholder is replaced by its value and the inserted
      value is never looked at again (no recursive expansion)\<close>
  "expand_spec [] binding = []"
| "expand_spec (c # cs) binding =
     (case find (\<lambda>(name, val). prefix (placeholder name) (c # cs)) binding of
        Some (name, val) \<Rightarrow> val @ expand_spec (drop (length (placeholder name)) (c # cs)) binding
      | None \<Rightarrow> c # expand_spec cs binding)"
  by pat_completeness auto
termination
  by (relation "measure (\<lambda>(s, b). length s)") (auto simp: placeholder_def)

datatype piece = Lit char | Hole string

fun render_piece :: "piece \<Rightarrow> string" where
  "render_piece (Lit c) = [c]"
| "render_piece (Hole name) = placeholder name"

definition render :: "piece list \<Rightarrow> string" where
  \<comment> \<open>the template string written by a sequence of literal characters and placeholders\<close>
  "render ps = concat (map render_piece ps)"

definition brace_free :: "string \<Rightarrow> bool" where
  "brace_free s \<longleftrightarrow> CHR ''{'' \<notin> set s \<and> CHR ''}'' \<notin> set s"

fun piece_ok :: "piece \<Rightarrow> bool" where
  "piece_ok (Lit c) = (c \<noteq> CHR ''{'')"
| "piece_ok (Hole name) = brace_free name"

definition binding_ok :: "(string \<times> string) list \<Rightarrow> bool" where
  "binding_ok binding \<longleftrightarrow>
     (\<forall>(name, val) \<in> set binding. brace_free name \<and> CHR ''{'' \<notin> set val)"

fun subst_piece :: "(string \<times> string) list \<Rightarrow> piece \<Rightarrow> string" where
  "subst_piece binding (Lit c) = [c]"
| "subst_piece binding (Hole name) =
     (case map_of binding name of Some val \<Rightarrow> val | None \<Rightarrow> placeholder name)"

definition capped_output ::
  "nat \<Rightarrow> TrainingExample list \<Rightarrow> rng \<Rightarrow> TrainingExample list" where
  \<comment> \<open>the last four statements of \<open>generate\<close> in the single-command and tools generators,
      applied to the pool of examples: shuffle, cap, shuffle, \<open>examples[:count]\<close>\<close>
  "capped_output count examples g =
     take count (fst (rng_shuffle (cap_single_char (max_single_char count)
        (fst (rng_shuffle examples g))) (snd (rng_shuffle examples g))))"

definition tools_pool :: "nat \<Rightarrow> rng \<Rightarrow> TrainingExample list \<times> rng" where
  \<comment> \<open>the examples of \<open>ToolsGenerator.generate\<close> before the first shuffle\<close>
  "tools_pool count g =
     regenerate 3 (\<lambda>n. repeat_collect n (tools_iteration ''bash'')) count
       (filter (\<lambda>ex. \<not> null_correction ex)
          (fst (for_shells (\<lambda>shell shell_count. repeat_collect shell_count (tools_iteration shell))
              (shell_counts count) g)))
       (snd (for_shells (\<lambda>shell shell_count. repeat_collect shell_count (tools_iteration shell))
              (shell_counts count) g))"

definition single_pool ::
  "(string \<times> (string \<times> entry list) list) list \<Rightarrow> nat \<Rightarrow> rng \<Rightarrow> TrainingExample list \<times> rng" where
  \<comment> \<open>the examples of \<open>SingleCommandGenerator.generate\<close> before the first shuffle\<close>
  "single_pool templates count g =
     regenerate 3 (single_generate_for_shell templates ''bash'') count
       (filter (\<lambda>ex. \<not> null_correction ex)
          (fst (for_shells (\<lambda>shell shell_count g.
                if map_of templates shell = None then ([], g)
                else single_generate_for_shell templates shell shell_count g)
              (shell_counts count) g)))
       (snd (for_shells (\<lambda>shell shell_count g.
                if map_of templates shell = None then ([], g)
                else single_generate_for_shell templates shell shell_count g)
              (shell_counts count) g))"


section \<open>Sample inputs\<close>

text \<open>
  Concrete patterns, catalogs and draws on which the generators are run in the examples
  below.  \<open>redirection_pattern\<close> is the first bash entry of \<open>REDIRECTION_PATTERNS\<close> and
  \<open>awk_entry\<close> the first \<open>awk\<close> entry of \<open>TOOLS\<close>; \<open>sample_templates\<close> stands for the
  YAML templates of the single-command generator, which are read from files.
\<close>

definition redirection_pattern :: pattern where
  \<open>redirection_pattern =
     \<lparr>entry_correct = ''command > {file} 2>&1'',
      entry_errors = [''command 2>&1 > {file}'', ''command > {file} 2>1'', ''command &> {file}''],
      pattern_category = ''redirection''\<rparr>\<close>

definition redirection_example :: TrainingExample where
  "redirection_example =
     \<lparr>ex_shell = ''bash'', incorrect_command = ''command > file.txt 2>1'',
      correct_command = ''command > file.txt 2>&1'', ex_category = ''redirection'',
      ex_error_type = ''redirection'', ex_source = ''chained_pattern'', ex_metadata = []\<rparr>"

definition redirection_draws :: rng where
  \<comment> \<open>error type \<open>redirection\<close> (\<open>random() = 0.75\<close>), first pattern, first file name,
      \<open>random() = 0\<close>, second wrong template\<close>
  "redirection_draws = [6755399441055744, 0, 0, 0, 1]"

definition awk_entry :: entry where
  \<open>awk_entry =
     \<lparr>entry_correct = (''awk '{{print $1}}' {file}''),
      entry_errors = [''awk {print $1} {file}'', ''awk '{{print}}' {file}'']\<rparr>\<close>

definition sample_templates :: "(string \<times> (string \<times> entry list) list) list" where
  "sample_templates =
     [(''bash'',
       [(''navigation'',
         [\<lparr>entry_correct = ''cd {path}'', entry_errors = [''chdir {path}'']\<rparr>])])]"

definition cd_example :: TrainingExample where
  "cd_example =
     \<lparr>ex_shell = ''bash'', incorrect_command = ''chdir mydir'', correct_command = ''cd mydir'',
      ex_category = ''navigation'', ex_error_type = ''typo'', ex_source = ''template'',
      ex_metadata = [(''template'', ''cd {path}'')]\<rparr>"

definition git_example :: TrainingExample where
  "git_example =
     \<lparr>ex_shell = ''bash'', incorrect_command = ''gti status'', correct_command = ''git status'',
      ex_category = ''tools_version_control'', ex_error_type = ''tool_specific'',
      ex_source = ''tools_pattern'', ex_metadata = [(''tool'', ''git'')]\<rparr>"

definition list_files_example :: TrainingExample where
  "list_files_example =
     \<lparr>ex_shell = ''bash'', incorrect_command = ''list all files'', correct_command = ''ls -la'',
      ex_category = ''natural_language'', ex_error_type = ''imperative'',
      ex_source = ''nl_pattern'', ex_metadata = []\<rparr>"

definition list_files_draws :: rng where
  \<comment> \<open>type \<open>imperative\<close>, five times \<open>random() = 0.75\<close> (no extra patterns), first pattern,
      first variation\<close>
  "list_files_draws =
     [0, 6755399441055744, 6755399441055744, 6755399441055744, 6755399441055744,
      6755399441055744, 0, 0]"


section \<open>The single-character classifier\<close>

lemma diff_count_card:
  assumes "length a = length b"
  shows "diff_count a b = card {i. i < length a \<and> a ! i \<noteq> b ! i}"
proof -
  have "{i. i < length (zip a b) \<and> (case zip a b ! i of (x, y) \<Rightarrow> x \<noteq> y)}
        = {i. i < length a \<and> a ! i \<noteq> b ! i}"
    using assms by auto
  then show ?thesis
    by (simp add: diff_count_def length_filter_conv_card)
qed

lemma is_single_char_correction_iff:
  "is_single_char_correction a b \<longleftrightarrow> single_char_spec a b"
proof -
  define a' where "a' = str_strip a"
  define b' where "b' = str_strip b"
  note defs = is_single_char_correction_def single_char_spec_def Let_def
    a'_def[symmetric] b'_def[symmetric]
  consider (eq) "length a' = length b'" | (lt) "length b' = length a' + 1"
    | (gt) "length a' = length b' + 1"
    | (far) "length a' \<noteq> length b'" "length b' \<noteq> length a' + 1" "length a' \<noteq> length b' + 1"
    by blast
  then show ?thesis
  proof cases
    case eq
    then show ?thesis unfolding defs by (simp add: diff_count_card)
  next
    case lt
    then show ?thesis unfolding defs by (auto simp: list_ex_iff)
  next
    case gt
    then show ?thesis unfolding defs by (auto simp: list_ex_iff)
  next
    case far
    then show ?thesis unfolding defs by auto
  qed
qed

text \<open>
  Claim C3.  \<open>_is_single_char_correction(a, b)\<close> (the same code in the single-command
  generator, the tools generator and the verification script) is true exactly when the
  trimmed strings have equal length and differ in exactly one position, or their lengths
  differ by one and the shorter is the longer with one character removed; it is true on
  ("ls -la", "ls -lA"), ("cat file", "cat files") and ("git status", "git stats") and
  false on ("ls", "ls -la").
\<close>

theorem is_single_char_correction_spec:
  "(is_single_char_correction a b \<longleftrightarrow> single_char_spec a b) \<and>
   is_single_char_correction ''ls -la'' ''ls -lA'' \<and>
   is_single_char_correction ''cat file'' ''cat files'' \<and>
   is_single_char_correction ''git status'' ''git stats'' \<and>
   \<not> is_single_char_correction ''ls'' ''ls -la''"
proof (intro conjI)
  show "is_single_char_correction a b \<longleftrightarrow> single_char_spec a b"
    by (rule is_single_char_correction_iff)
  show "is_single_char_correction ''ls -la'' ''ls -lA''"
    by code_simp
  show "is_single_char_correction ''cat file'' ''cat files''"
    by code_simp
  show "is_single_char_correction ''git status'' ''git stats''"
    by code_simp
  show "\<not> is_single_char_correction ''ls'' ''ls -la''"
    by code_simp
qed

theorem is_single_char_correction_spec_witness:
  "is_single_char_correction ''docker pa'' '' docker ps '' \<and>
   single_char_spec ''docker pa'' '' docker ps '' \<and>
   \<not> single_char_spec ''gti status'' ''git status''"
proof -
  have c: "is_single_char_correction ''docker pa'' '' docker ps ''"
    by code_simp
  have d: "\<not> is_single_char_correction ''gti status'' ''git status''"
    by code_simp
  from c d show ?thesis
    using is_single_char_correction_spec[of "''docker pa''" "'' docker ps ''"]
      is_single_char_correction_spec[of "''gti status''" "''git status''"]
    by blast
qed


section \<open>Space removal\<close>

lemma isspace_space: "isspace CHR '' ''"
  by (simp add: isspace_def whitespace_chars_def)

lemma token_takeWhile: "\<not> isspace c \<Longrightarrow> token (c # takeWhile (\<lambda>x. \<not> isspace x) cs)"
  using set_takeWhileD[of _ "\<lambda>x. \<not> isspace x" cs] by (auto simp: token_def)

lemma str_split_tokens: "w \<in> set (str_split s) \<Longrightarrow> token w"
proof (induction s rule: str_split.induct)
  case 1
  then show ?case by simp
next
  case (2 c cs)
  show ?case
  proof (cases "isspace c")
    case True
    with 2 show ?thesis by simp
  next
    case False
    with 2 show ?thesis using token_takeWhile[OF False, of cs] by auto
  qed
qed

lemma str_split_token_space:
  assumes "token w"
  shows "str_split (w @ CHR '' '' # s) = w # str_split s"
proof -
  from assms obtain c w' where w: "w = c # w'" and c: "\<not> isspace c"
    and w': "\<forall>x \<in> set w'. \<not> isspace x"
    by (cases w) (auto simp: token_def)
  have "takeWhile (\<lambda>x. \<not> isspace x) (w' @ CHR '' '' # s) = w'"
    using w' by (simp add: isspace_space)
  moreover have "dropWhile (\<lambda>x. \<not> isspace x) (w' @ CHR '' '' # s) = CHR '' '' # s"
    using w' by (simp add: isspace_space)
  ultimately show ?thesis
    using c by (simp add: w isspace_space)
qed

lemma str_split_token:
  assumes "token w"
  shows "str_split w = [w]"
proof -
  from assms obtain c w' where w: "w = c # w'" and c: "\<not> isspace c"
    and w': "\<forall>x \<in> set w'. \<not> isspace x"
    by (cases w) (auto simp: token_def)
  have tw: "takeWhile (\<lambda>x. \<not> isspace x) w' = w'"
    using w' by simp
  have dw: "dropWhile (\<lambda>x. \<not> isspace x) w' = []"
    using w' by simp
  show ?thesis using c by (simp add: w tw dw)
qed

lemma str_split_join: "\<forall>w \<in> set ps. token w \<Longrightarrow> str_split (str_join '' '' ps) = ps"
proof (induction "'' ''" ps rule: str_join.induct)
  case 1
  then show ?case by simp
next
  case (2 p)
  then show ?case by (simp add: str_split_token)
next
  case (3 p q ps)
  then show ?case using str_split_token_space[of p "str_join '' '' (q # ps)"] by simp
qed

lemma token_append: "token a \<Longrightarrow> token b \<Longrightarrow> token (a @ b)"
  by (auto simp: token_def)

lemma merge_parts:
  assumes "i + 1 < length ps"
  shows "pop_at (i + 1) (ps[i := ps ! i @ ps ! (i + 1)])
         = take i ps @ [ps ! i @ ps ! (i + 1)] @ drop (i + 2) ps"
proof -
  have "take (i + 1) (ps[i := ps ! i @ ps ! (i + 1)]) = take i ps @ [ps ! i @ ps ! (i + 1)]"
    using assms by (simp add: take_Suc_conv_app_nth)
  then show ?thesis
    using assms by (simp add: pop_at_def)
qed

lemma randint_index:
  assumes "2 \<le> n"
  shows "\<exists>i. i + 1 < n \<and> rng_randint 0 (int n - 2) g = (int i, snd (next_draw g))"
proof -
  have "nat (int n - 2 - 0 + 1) = n - 1" using assms by simp
  then have "rng_randint 0 (int n - 2) g
             = (int (fst (next_draw g) mod (n - 1)), snd (next_draw g))"
    by (simp add: rng_randint_def randbelow_def split: prod.splits)
  moreover have "fst (next_draw g) mod (n - 1) + 1 < n"
  proof -
    have "fst (next_draw g) mod (n - 1) < n - 1"
      using assms by (intro mod_less_divisor) simp
    then show ?thesis by simp
  qed
  ultimately show ?thesis by blast
qed

text \<open>
  Claim C8.  On an input with at least two whitespace-separated tokens, \<open>remove_space\<close>
  returns a string whose tokens are those of the input with two adjacent ones merged, one
  token fewer; the index it draws is in range for the list accesses it makes (the range
  passed to \<open>randint\<close> is not empty, and \<open>parts[idx + 1]\<close> exists), so nothing raises.  On
  an input with fewer than two tokens it returns the input unchanged and draws nothing.
\<close>

theorem remove_space_tokens:
  "(2 \<le> length (str_split text) \<longrightarrow>
      (\<exists>i. i + 1 < length (str_split text) \<and>
           fst (rng_randint 0 (int (length (str_split text)) - 2) g) = int i \<and>
           str_split (fst (remove_space text g)) =
             take i (str_split text) @ [str_split text ! i @ str_split text ! (i + 1)]
               @ drop (i + 2) (str_split text)) \<and>
      length (str_split (fst (remove_space text g))) + 1 = length (str_split text)) \<and>
   (length (str_split text) < 2 \<longrightarrow> remove_space text g = (text, g))"
proof (intro conjI impI)
  assume "length (str_split text) < 2"
  then show "remove_space text g = (text, g)"
    by (simp add: remove_space_def)
next
  define ps where "ps = str_split text"
  assume len: "2 \<le> length (str_split text)"
  then obtain i where i: "i + 1 < length ps"
    and draw: "rng_randint 0 (int (length ps) - 2) g = (int i, snd (next_draw g))"
    using randint_index[of "length ps" g] by (auto simp: ps_def)
  define qs where "qs = take i ps @ [ps ! i @ ps ! (i + 1)] @ drop (i + 2) ps"
  have toks: "\<forall>w \<in> set ps. token w"
    by (auto simp: ps_def intro: str_split_tokens)
  have "token (ps ! i @ ps ! (i + 1))"
    using toks i by (simp add: token_append)
  then have "\<forall>w \<in> set qs. token w"
    using toks by (auto simp: qs_def dest: in_set_takeD in_set_dropD)
  then have split: "str_split (str_join '' '' qs) = qs"
    by (rule str_split_join)
  have res: "fst (remove_space text g) = str_join '' '' qs"
    using len i draw merge_parts[OF i]
    by (simp add: remove_space_def ps_def[symmetric] qs_def Let_def)
  show "\<exists>i. i + 1 < length (str_split text) \<and>
           fst (rng_randint 0 (int (length (str_split text)) - 2) g) = int i \<and>
           str_split (fst (remove_space text g)) =
             take i (str_split text) @ [str_split text ! i @ str_split text ! (i + 1)]
               @ drop (i + 2) (str_split text)"
    using i draw res split by (auto simp: ps_def[symmetric] qs_def intro!: exI[of _ i])
  show "length (str_split (fst (remove_space text g))) + 1 = length (str_split text)"
    using i res split by (simp add: ps_def[symmetric] qs_def)
qed

theorem remove_space_tokens_witness:
  "2 \<le> length (str_split ''mkdir -p path'') \<and>
   length (str_split (fst (remove_space ''mkdir -p path'' [1]))) + 1
     = length (str_split ''mkdir -p path'') \<and>
   length (str_split ''ls'') < 2 \<and>
   remove_space ''ls'' [1] = (''ls'', [1])"
proof -
  have two: "2 \<le> length (str_split ''mkdir -p path'')"
    by (simp add: isspace_def whitespace_chars_def)
  have one: "length (str_split ''ls'') < 2"
    by (simp add: isspace_def whitespace_chars_def)
  have "length (str_split (fst (remove_space ''mkdir -p path'' [1]))) + 1
          = length (str_split ''mkdir -p path'')"
    using two remove_space_tokens[of "''mkdir -p path''" "[1]"] by blast
  moreover have "remove_space ''ls'' [1] = (''ls'', [1])"
    using one remove_space_tokens[of "''ls''" "[1]"] by blast
  ultimately show ?thesis
    using two one by blast
qed


section \<open>The flag-style toggle\<close>

lemma str_replace1_first:
  assumes "old \<noteq> []" "str_contains s old"
  shows "\<exists>pre post. s = pre @ old @ post \<and> (\<forall>j < length pre. \<not> prefix old (drop j s))
           \<and> str_replace1 old new s = pre @ new @ post"
  using assms(2)
proof (induction s)
  case Nil
  with assms(1) show ?case by simp
next
  case (Cons c cs)
  show ?case
  proof (cases "prefix old (c # cs)")
    case True
    then obtain post where post: "c # cs = old @ post"
      by (auto simp: prefix_def)
    have "drop (length old) (c # cs) = post"
      by (simp add: post)
    then have "str_replace1 old new (c # cs) = [] @ new @ post"
      using True by simp
    moreover have "\<forall>j < length ([]::string). \<not> prefix old (drop j (c # cs))"
      by simp
    moreover have "c # cs = [] @ old @ post"
      using post by simp
    ultimately show ?thesis by blast
  next
    case False
    with Cons.prems have "str_contains cs old" by simp
    from Cons.IH[OF this] obtain pre post where cs: "cs = pre @ old @ post"
      and first: "\<forall>j < length pre. \<not> prefix old (drop j cs)"
      and rep: "str_replace1 old new cs = pre @ new @ post"
      by blast
    have "\<forall>j < length (c # pre). \<not> prefix old (drop j (c # cs))"
    proof (intro allI impI)
      fix j assume j: "j < length (c # pre)"
      show "\<not> prefix old (drop j (c # cs))"
      proof (cases j)
        case 0
        with False show ?thesis by simp
      next
        case (Suc k)
        with j first show ?thesis by simp
      qed
    qed
    moreover have "c # cs = (c # pre) @ old @ post" using cs by simp
    moreover have "str_replace1 old new (c # cs) = (c # pre) @ new @ post"
      using False rep by simp
    ultimately show ?thesis by blast
  qed
qed

lemma str_replace1_absent:
  assumes "old \<noteq> []" "\<not> str_contains s old"
  shows "str_replace1 old new s = s"
  using assms by (induction s) auto

text \<open>
  Claim C9, as amended.  On an input containing \<open>" --"\<close>, \<open>wrong_flag\<close> draws a random
  number: above \<open>0.5\<close> it demotes the first occurrence of \<open>" --"\<close> to \<open>" -"\<close>, otherwise it
  returns the input unchanged.  On an input containing \<open>" -"\<close> but no \<open>" --"\<close> it promotes
  the first occurrence of \<open>" -"\<close> to \<open>" --"\<close>, and on any other input it returns the input
  unchanged, without drawing.
\<close>

theorem wrong_flag_gated:
  "(str_contains text '' --'' \<longrightarrow>
      (1 / 2 < fst (rng_random g) \<longrightarrow> replaced_first '' --'' '' -'' text (fst (wrong_flag text g))) \<and>
      (fst (rng_random g) \<le> 1 / 2 \<longrightarrow> fst (wrong_flag text g) = text)) \<and>
   (\<not> str_contains text '' --'' \<and> str_contains text '' -'' \<longrightarrow>
      replaced_first '' -'' '' --'' text (fst (wrong_flag text g))) \<and>
   (\<not> str_contains text '' --'' \<and> \<not> str_contains text '' -'' \<longrightarrow>
      wrong_flag text g = (text, g))"
proof (intro conjI impI)
  assume c: "str_contains text '' --''" and r: "1 / 2 < fst (rng_random g)"
  then have "fst (wrong_flag text g) = str_replace1 '' --'' '' -'' text"
    by (cases "rng_random g") (simp add: wrong_flag_def)
  then show "replaced_first '' --'' '' -'' text (fst (wrong_flag text g))"
    using str_replace1_first[of "'' --''" "text" "'' -''"] c
    unfolding replaced_first_def by simp
next
  assume c: "str_contains text '' --''" and r: "fst (rng_random g) \<le> 1 / 2"
  then show "fst (wrong_flag text g) = text"
    by (cases "rng_random g") (simp add: wrong_flag_def)
next
  assume c: "\<not> str_contains text '' --'' \<and> str_contains text '' -''"
  then have "fst (wrong_flag text g) = str_replace1 '' -'' '' --'' text"
    by (simp add: wrong_flag_def)
  then show "replaced_first '' -'' '' --'' text (fst (wrong_flag text g))"
    using str_replace1_first[of "'' -''" "text" "'' --''"] c
    unfolding replaced_first_def by simp
next
  assume "\<not> str_contains text '' --'' \<and> \<not> str_contains text '' -''"
  then show "wrong_flag text g = (text, g)"
    by (simp add: wrong_flag_def)
qed

theorem wrong_flag_gated_witness:
  "str_contains ''ls --all'' '' --'' \<and>
   1 / 2 < fst (rng_random [2 ^ 52 + 1]) \<and>
   replaced_first '' --'' '' -'' ''ls --all'' (fst (wrong_flag ''ls --all'' [2 ^ 52 + 1])) \<and>
   \<not> str_contains ''ls -a'' '' --'' \<and> str_contains ''ls -a'' '' -'' \<and>
   replaced_first '' -'' '' --'' ''ls -a'' (fst (wrong_flag ''ls -a'' [])) \<and>
   wrong_flag ''pwd'' [7] = (''pwd'', [7])"
proof -
  have c: "str_contains ''ls --all'' '' --''"
    by simp
  have r: "1 / 2 < fst (rng_random [2 ^ 52 + 1])"
    by (simp add: rng_random_def next_draw_def)
  have d: "\<not> str_contains ''ls -a'' '' --'' \<and> str_contains ''ls -a'' '' -''"
    by simp
  have e: "\<not> str_contains ''pwd'' '' --'' \<and> \<not> str_contains ''pwd'' '' -''"
    by simp
  show ?thesis
    using c r d e wrong_flag_gated[of "''ls --all''" "[2 ^ 52 + 1]"]
      wrong_flag_gated[of "''ls -a''" "[]"] wrong_flag_gated[of "''pwd''" "[7]"]
    by blast
qed

text \<open>
  The claim as the specification states it (every input containing \<open>" --"\<close> has its first
  occurrence demoted) fails when the draw is not above \<open>0.5\<close>: the input comes back
  unchanged.
\<close>

theorem wrong_flag_counterexample:
  "str_contains ''ls --all'' '' --'' \<and>
   fst (wrong_flag ''ls --all'' [0]) = ''ls --all'' \<and>
   str_replace1 '' --'' '' -'' ''ls --all'' = ''ls -all''"
  by (simp add: wrong_flag_def rng_random_def next_draw_def)


section \<open>Template expansion\<close>

lemma placeholder_simps [simp]: "placeholder n = CHR ''{'' # n @ ''}''" "placeholder n \<noteq> []"
  "length (placeholder n) = length n + 2"
  by (simp_all add: placeholder_def)

lemma prefix_placeholder:
  assumes "brace_free k" "brace_free n"
  shows "prefix (placeholder k) (placeholder n @ rest) \<longleftrightarrow> k = n"
proof
  assume "prefix (placeholder k) (placeholder n @ rest)"
  then have p: "prefix (k @ ''}'') (n @ ''}'' @ rest)" by simp
  then obtain zs where zs: "n @ ''}'' @ rest = k @ ''}'' @ zs"
    by (auto simp: prefix_def)
  show "k = n"
  proof (rule ccontr)
    assume ne: "k \<noteq> n"
    from zs have "n @ (CHR ''}'' # rest) = k @ (CHR ''}'' # zs)" by simp
    then consider us where "n = k @ us" "us @ (CHR ''}'' # rest) = CHR ''}'' # zs"
      | us where "n @ us = k" "CHR ''}'' # rest = us @ (CHR ''}'' # zs)"
      by (auto simp: append_eq_append_conv2)
    then show False
    proof cases
      case 1
      with ne have "us \<noteq> []" by auto
      with 1 have "hd us = CHR ''}''" by (cases us) auto
      with \<open>us \<noteq> []\<close> 1 assms(2) show False by (cases us) (auto simp: brace_free_def)
    next
      case 2
      with ne have "us \<noteq> []" by auto
      with 2 have "hd us = CHR ''}''" by (cases us) auto
      with \<open>us \<noteq> []\<close> 2 assms(1) show False by (cases us) (auto simp: brace_free_def)
    qed
  qed
next
  assume "k = n" then show "prefix (placeholder k) (placeholder n @ rest)" by simp
qed

lemma replace_scan_match:
  assumes "old \<noteq> []"
  shows "replace_scan old new (old @ s) = new @ replace_scan old new s"
proof -
  from assms obtain c cs where old: "old = c # cs" by (cases old) auto
  have "replace_scan old new (c # cs @ s) = new @ replace_scan old new (drop (length old) (c # cs @ s))"
    using assms by (simp add: old)
  then show ?thesis by (simp add: old)
qed

lemma replace_scan_no_brace:
  assumes "CHR ''{'' \<notin> set w"
  shows "replace_scan (placeholder k) v (w @ s) = w @ replace_scan (placeholder k) v s"
  using assms by (induction w) auto

lemma replace_scan_render:
  assumes "brace_free k" "\<forall>p \<in> set ps. piece_ok p"
  shows "replace_scan (placeholder k) v (render ps)
         = render (concat (map (\<lambda>p. if p = Hole k then map Lit v else [p]) ps))"
  using assms(2)
proof (induction ps)
  case Nil
  then show ?case by (simp add: render_def)
next
  case (Cons p ps)
  then have IH: "replace_scan (placeholder k) v (render ps)
         = render (concat (map (\<lambda>p. if p = Hole k then map Lit v else [p]) ps))"
    by simp
  have lits: "render (map Lit v @ qs) = v @ render qs" for v qs
    by (induction v) (simp_all add: render_def)
  show ?case
  proof (cases p)
    case (Lit c)
    with Cons.prems have "c \<noteq> CHR ''{''" by simp
    then show ?thesis using IH Lit by (simp add: render_def)
  next
    case (Hole n)
    with Cons.prems have n: "brace_free n" by simp
    show ?thesis
    proof (cases "n = k")
      case True
      have "replace_scan (placeholder k) v (placeholder k @ render ps)
            = v @ replace_scan (placeholder k) v (render ps)"
        by (rule replace_scan_match) simp
      then show ?thesis using IH Hole True lits by (simp add: render_def)
    next
      case False
      then have np: "\<not> prefix (placeholder k) (placeholder n @ render ps)"
        using prefix_placeholder[OF assms(1) n] by simp
      have "replace_scan (placeholder k) v (placeholder n @ render ps)
            = CHR ''{'' # replace_scan (placeholder k) v ((n @ ''}'') @ render ps)"
        using np by simp
      also have "\<dots> = CHR ''{'' # (n @ ''}'') @ replace_scan (placeholder k) v (render ps)"
        using n by (subst replace_scan_no_brace) (auto simp: brace_free_def)
      finally show ?thesis using IH Hole False by (simp add: render_def)
    qed
  qed
qed


lemma render_Cons: "render (p # ps) = render_piece p @ render ps"
  by (simp add: render_def)

lemma render_lits: "render (map Lit v @ qs) = v @ render qs"
  by (induction v) (simp_all add: render_def)

lemma subst_after_replace:
  "concat (map (subst_piece b) (concat (map (\<lambda>p. if p = Hole k then map Lit v else [p]) ps)))
   = concat (map (subst_piece ((k, v) # b)) ps)"
proof (induction ps)
  case Nil
  then show ?case by simp
next
  case (Cons p ps)
  have "concat (map (subst_piece b) (map Lit v)) = v"
    by (induction v) simp_all
  then have "concat (map (subst_piece b) (if p = Hole k then map Lit v else [p]))
        = subst_piece ((k, v) # b) p"
    by (cases p) auto
  with Cons show ?case by simp
qed

lemma expand_template_pieces:
  assumes "\<forall>p \<in> set ps. piece_ok p" "binding_ok b"
  shows "expand_template (render ps) b = concat (map (subst_piece b) ps)"
  using assms
proof (induction b arbitrary: ps)
  case Nil
  have "concat (map (subst_piece []) ps) = render ps"
    unfolding render_def by (rule arg_cong[where f = concat], rule map_cong[OF refl]) (case_tac x, auto)
  then show ?case by simp
next
  case (Cons kv b)
  obtain k v where kv: "kv = (k, v)" by (cases kv)
  from Cons.prems kv have k: "brace_free k" and v: "CHR ''{'' \<notin> set v" and b: "binding_ok b"
    by (auto simp: binding_ok_def)
  define qs where "qs = concat (map (\<lambda>p. if p = Hole k then map Lit v else [p]) ps)"
  have qs_ok: "\<forall>p \<in> set qs. piece_ok p"
    using Cons.prems(1) v by (auto simp: qs_def)
  have "str_replace (''{'' @ k @ ''}'') v (render ps) = render qs"
    using replace_scan_render[OF k Cons.prems(1), of v]
    by (simp add: str_replace_def placeholder_def qs_def)
  then have "expand_template (render ps) (kv # b) = expand_template (render qs) b"
    by (simp add: kv)
  also have "\<dots> = concat (map (subst_piece b) qs)"
    by (rule Cons.IH[OF qs_ok b])
  also have "\<dots> = concat (map (subst_piece (kv # b)) ps)"
    unfolding qs_def kv by (rule subst_after_replace)
  finally show ?case .
qed

lemma find_placeholder:
  assumes "binding_ok b" "brace_free n"
  shows "find (\<lambda>(k, v). prefix (placeholder k) (placeholder n @ rest)) b
         = map_option (\<lambda>v. (n, v)) (map_of b n)"
  using assms(1)
proof (induction b)
  case Nil
  then show ?case by simp
next
  case (Cons kv b)
  obtain k v where kv: "kv = (k, v)" by (cases kv)
  from Cons.prems kv have k: "brace_free k" and b: "binding_ok b"
    by (auto simp: binding_ok_def)
  show ?case
    using Cons.IH[OF b] prefix_placeholder[OF k assms(2), of rest] by (auto simp: kv)
qed

lemma find_no_placeholder:
  assumes "c \<noteq> CHR ''{''"
  shows "find (\<lambda>(k, v). prefix (placeholder k) (c # cs)) b = None"
  using assms by (induction b) (auto simp: placeholder_def)

lemma expand_spec_no_brace:
  assumes "CHR ''{'' \<notin> set w"
  shows "expand_spec (w @ s) b = w @ expand_spec s b"
  using assms
proof (induction w)
  case Nil
  then show ?case by simp
next
  case (Cons a w)
  then have "a \<noteq> CHR ''{''" by auto
  then have "find (\<lambda>(k, v). prefix (placeholder k) (a # w @ s)) b = None"
    by (rule find_no_placeholder)
  then have "expand_spec (a # w @ s) b = a # expand_spec (w @ s) b"
    by (simp only: expand_spec.simps option.case)
  with Cons show ?case by simp
qed

lemma expand_spec_pieces:
  assumes "\<forall>p \<in> set ps. piece_ok p" "binding_ok b"
  shows "expand_spec (render ps) b = concat (map (subst_piece b) ps)"
  using assms(1)
proof (induction ps)
  case Nil
  then show ?case by (simp add: render_def)
next
  case (Cons p ps)
  then have IH: "expand_spec (render ps) b = concat (map (subst_piece b) ps)"
    by simp
  show ?case
  proof (cases p)
    case (Lit c)
    with Cons.prems have "c \<noteq> CHR ''{''" by simp
    then show ?thesis
      using IH Lit find_no_placeholder[of c "render ps" b] by (simp add: render_Cons)
  next
    case (Hole n)
    with Cons.prems have n: "brace_free n" by simp
    have shape: "placeholder n @ render ps = CHR ''{'' # (n @ ''}'' @ render ps)"
      by (simp add: placeholder_def)
    have dr: "drop (length (placeholder n)) (placeholder n @ render ps) = render ps"
      by simp
    have "expand_spec (placeholder n @ render ps) b
          = (case map_of b n of Some v \<Rightarrow> v @ expand_spec (render ps) b
             | None \<Rightarrow> CHR ''{'' # expand_spec (n @ ''}'' @ render ps) b)"
      using find_placeholder[OF assms(2) n, of "render ps"] dr
      unfolding shape by (simp split: option.splits)
    moreover from expand_spec_no_brace[of "n @ ''}''" "render ps" b] n
    have "expand_spec (n @ ''}'' @ render ps) b = n @ ''}'' @ expand_spec (render ps) b"
      by (simp add: brace_free_def)
    ultimately show ?thesis
      using IH Hole by (simp add: render_Cons placeholder_def split: option.splits)
  qed
qed

text \<open>
  Claim C7, as amended.  For a template written from literal characters other than \<open>{\<close>
  and placeholders with brace-free names, and a binding whose names are brace-free and
  whose values contain no \<open>{\<close>, \<open>expand_template\<close> replaces every placeholder of a bound
  name by its value and leaves every other placeholder verbatim, which is also what the
  single pass without recursive expansion gives.  The two examples of the specification
  hold.
\<close>

theorem expand_template_flat:
  "((\<forall>p \<in> set ps. piece_ok p) \<and> binding_ok b \<longrightarrow>
      expand_template (render ps) b = concat (map (subst_piece b) ps) \<and>
      expand_template (render ps) b = expand_spec (render ps) b) \<and>
   expand_template ''cp {src} {dst}'' [(''src'', ''a.txt''), (''dst'', ''b.txt'')]
     = ''cp a.txt b.txt'' \<and>
   expand_template ''foo {zzz}'' [] = ''foo {zzz}''"
proof (intro conjI impI)
  assume ok: "(\<forall>p \<in> set ps. piece_ok p) \<and> binding_ok b"
  then show "expand_template (render ps) b = concat (map (subst_piece b) ps)"
    by (simp add: expand_template_pieces)
  with ok show "expand_template (render ps) b = expand_spec (render ps) b"
    by (simp add: expand_spec_pieces)
next
  show "expand_template ''cp {src} {dst}'' [(''src'', ''a.txt''), (''dst'', ''b.txt'')]
          = ''cp a.txt b.txt''"
    by (simp add: str_replace_def)
  show "expand_template ''foo {zzz}'' [] = ''foo {zzz}''"
    by simp
qed

theorem expand_template_flat_witness:
  "list_all piece_ok
     [Lit CHR ''c'', Lit CHR ''d'', Lit CHR '' '', Hole ''path'', Lit CHR ''/'', Hole ''zzz''] \<and>
   binding_ok [(''path'', ''src''), (''file'', ''a.txt'')] \<and>
   render [Lit CHR ''c'', Lit CHR ''d'', Lit CHR '' '', Hole ''path'', Lit CHR ''/'', Hole ''zzz'']
     = ''cd {path}/{zzz}'' \<and>
   expand_template ''cd {path}/{zzz}'' [(''path'', ''src''), (''file'', ''a.txt'')]
     = ''cd src/{zzz}''"
proof -
  define ps where "ps = [Lit CHR ''c'', Lit CHR ''d'', Lit CHR '' '', Hole ''path'', Lit CHR ''/'', Hole ''zzz'']"
  define b where "b = [(''path'', ''src''), (''file'', ''a.txt'')]"
  have ok: "(\<forall>p \<in> set ps. piece_ok p) \<and> binding_ok b"
    by (simp add: ps_def b_def binding_ok_def brace_free_def)
  have r: "render ps = ''cd {path}/{zzz}''"
    by (simp add: ps_def render_def placeholder_def)
  have "expand_template (render ps) b = concat (map (subst_piece b) ps)"
    using ok expand_template_flat[of ps b] by blast
  also have "\<dots> = ''cd src/{zzz}''"
    by (simp add: ps_def b_def placeholder_def)
  finally show ?thesis
    using ok r unfolding ps_def b_def by (simp add: list_all_iff)
qed

text \<open>
  The claim as the specification states it (for every template and every binding, with
  no recursive expansion) fails: the binding is applied one name after the other, each
  by \<open>str.replace\<close> on the result so far, so a value that contains a later name's
  placeholder is expanded again, and so is a placeholder that an earlier replacement
  completes.
\<close>

theorem expand_template_counterexample:
  "expand_template ''{a}'' [(''a'', ''{b}''), (''b'', ''x'')] = ''x'' \<and>
   expand_spec ''{a}'' [(''a'', ''{b}''), (''b'', ''x'')] = ''{b}'' \<and>
   expand_template ''{x{a}}'' [(''a'', ''y''), (''xy'', ''z'')] = ''z'' \<and>
   expand_spec ''{x{a}}'' [(''a'', ''y''), (''xy'', ''z'')] = ''{xy}''"
  by (simp add: str_replace_def placeholder_def)

declare placeholder_simps [simp del]


section \<open>The variable resolver and unbound placeholders\<close>












section \<open>Shuffling, regeneration and the cap\<close>

lemma randbelow_less: "0 < n \<Longrightarrow> fst (randbelow n g) < n"
  by (simp add: randbelow_def split: prod.splits)

lemma filter_length_update:
  "i < length xs \<Longrightarrow>
   length (filter P (xs[i := v])) + (if P (xs ! i) then 1 else 0)
     = length (filter P xs) + (if P v then 1 else 0)"
proof (induction xs arbitrary: i)
  case Nil
  then show ?case by simp
next
  case (Cons a xs)
  show ?case
  proof (cases i)
    case 0
    then show ?thesis by simp
  next
    case (Suc k)
    with Cons.prems have "k < length xs" by simp
    from Cons.IH[OF this] Suc show ?thesis by simp
  qed
qed

lemma filter_length_swap:
  assumes "i < length xs" "j < length xs"
  shows "length (filter P (xs[i := xs ! j, j := xs ! i])) = length (filter P xs)"
proof -
  have 1: "length (filter P (xs[i := xs ! j])) + (if P (xs ! i) then 1 else 0)
           = length (filter P xs) + (if P (xs ! j) then 1 else 0)"
    using assms(1) by (rule filter_length_update)
  have nth: "xs[i := xs ! j] ! j = xs ! j"
    using assms by (cases "i = j") simp_all
  have "j < length (xs[i := xs ! j])" using assms(2) by simp
  from filter_length_update[OF this, of P "xs ! i"]
  have 2: "length (filter P (xs[i := xs ! j, j := xs ! i])) + (if P (xs ! j) then 1 else 0)
           = length (filter P (xs[i := xs ! j])) + (if P (xs ! i) then 1 else 0)"
    by (simp add: nth)
  from 1 2 show ?thesis by simp
qed

lemma set_swap_subset:
  assumes "i < length xs" "j < length xs"
  shows "set (xs[i := xs ! j, j := xs ! i]) \<subseteq> set xs"
proof -
  have "set (xs[i := xs ! j, j := xs ! i]) \<subseteq> insert (xs ! i) (set (xs[i := xs ! j]))"
    by (rule set_update_subset_insert)
  also have "\<dots> \<subseteq> insert (xs ! i) (insert (xs ! j) (set xs))"
    using set_update_subset_insert[of xs i "xs ! j"] by auto
  also have "\<dots> = set xs"
    using assms by auto
  finally show ?thesis .
qed

lemma shuffle_from_props:
  "i < length x \<Longrightarrow>
   set (fst (shuffle_from i x g)) \<subseteq> set x \<and>
   length (fst (shuffle_from i x g)) = length x \<and>
   length (filter P (fst (shuffle_from i x g))) = length (filter P x)"
proof (induction i arbitrary: x g)
  case 0
  then show ?case by simp
next
  case (Suc i)
  obtain j g' where r: "randbelow (Suc i + 1) g = (j, g')" by (cases "randbelow (Suc i + 1) g")
  then have "j < Suc i + 1" using randbelow_less[of "Suc i + 1" g] by simp
  with Suc.prems have j: "j < length x" by simp
  define y where "y = x[Suc i := x ! j, j := x ! Suc i]"
  have y1: "set y \<subseteq> set x"
    unfolding y_def using Suc.prems j by (rule set_swap_subset)
  have y2: "length (filter P y) = length (filter P x)"
    unfolding y_def using Suc.prems j by (rule filter_length_swap)
  have y3: "length y = length x" by (simp add: y_def)
  have "i < length y" using Suc.prems y3 by simp
  from Suc.IH[OF this, of g'] y1 y2 y3 show ?case
    using r by (auto simp: y_def)
qed

lemma rng_shuffle_props:
  "set (fst (rng_shuffle x g)) \<subseteq> set x \<and>
   length (fst (rng_shuffle x g)) = length x \<and>
   length (filter P (fst (rng_shuffle x g))) = length (filter P x)"
proof (cases x)
  case Nil
  then show ?thesis by (simp add: rng_shuffle_def)
next
  case (Cons a as)
  then have "length x - 1 < length x" by simp
  then show ?thesis unfolding rng_shuffle_def by (rule shuffle_from_props)
qed

lemma regenerate_step:
  assumes "length examples < count" "extra_gen ((count - length examples) * 2) g = (extra, g')"
  shows "regenerate (Suc rounds) extra_gen count examples g
         = regenerate rounds extra_gen count (examples @ filter (\<lambda>ex. \<not> null_correction ex) extra) g'"
  using assms by (simp add: Let_def)

lemma regenerate_not_null:
  assumes "\<forall>ex \<in> set examples. \<not> null_correction ex"
  shows "\<forall>ex \<in> set (fst (regenerate rounds extra_gen count examples g)). \<not> null_correction ex"
  using assms
proof (induction rounds arbitrary: examples g)
  case 0
  then show ?case by simp
next
  case (Suc rounds)
  show ?case
  proof (cases "length examples < count")
    case True
    define extra where "extra = fst (extra_gen ((count - length examples) * 2) g)"
    define g' where "g' = snd (extra_gen ((count - length examples) * 2) g)"
    have e: "extra_gen ((count - length examples) * 2) g = (extra, g')"
      by (simp add: extra_def g'_def)
    have step: "regenerate (Suc rounds) extra_gen count examples g
         = regenerate rounds extra_gen count (examples @ filter (\<lambda>ex. \<not> null_correction ex) extra) g'"
      using True e by (rule regenerate_step)
    have "\<forall>ex \<in> set (examples @ filter (\<lambda>ex. \<not> null_correction ex) extra). \<not> null_correction ex"
      using Suc.prems by auto
    then have "\<forall>ex \<in> set (fst (regenerate rounds extra_gen count (examples @ filter (\<lambda>ex. \<not> null_correction ex) extra) g')). \<not> null_correction ex"
      by (rule Suc.IH)
    then show ?thesis
      unfolding step .
  next
    case False
    then have "regenerate (Suc rounds) extra_gen count examples g = (examples, g)"
      by simp
    then show ?thesis using Suc.prems by simp
  qed
qed
lemma set_cap_single_char: "set (cap_single_char m examples) \<subseteq> set examples"
  by (auto simp: cap_single_char_def Let_def dest: in_set_takeD)

lemma shuffled_take_not_null:
  assumes "\<forall>ex \<in> set examples. \<not> null_correction ex"
    and "ex \<in> set (take count (fst (rng_shuffle examples g)))"
  shows "\<not> null_correction ex"
proof -
  from assms(2) have "ex \<in> set (fst (rng_shuffle examples g))"
    by (rule in_set_takeD)
  with assms(1) show ?thesis
    using rng_shuffle_props[of examples g] by blast
qed

lemma chained_generate_unfold:
  "fst (chained_generate count g) =
     take count (fst (rng_shuffle
       (fst (regenerate 3 (chained_generate_for_shell ''bash'') count
          (filter (\<lambda>ex. \<not> null_correction ex)
             (fst (for_shells chained_generate_for_shell (shell_counts count) g)))
          (snd (for_shells chained_generate_for_shell (shell_counts count) g))))
       (snd (regenerate 3 (chained_generate_for_shell ''bash'') count
          (filter (\<lambda>ex. \<not> null_correction ex)
             (fst (for_shells chained_generate_for_shell (shell_counts count) g)))
          (snd (for_shells chained_generate_for_shell (shell_counts count) g))))))"
  by (simp add: chained_generate_def Let_def split_beta)

lemma chained_generate_not_null:
  assumes "ex \<in> set (fst (chained_generate count g))"
  shows "\<not> null_correction ex"
proof -
  have "\<forall>ex \<in> set (filter (\<lambda>ex. \<not> null_correction ex)
             (fst (for_shells chained_generate_for_shell (shell_counts count) g))).
          \<not> null_correction ex"
    by simp
  then have "\<forall>ex \<in> set (fst (regenerate 3 (chained_generate_for_shell ''bash'') count
          (filter (\<lambda>ex. \<not> null_correction ex)
             (fst (for_shells chained_generate_for_shell (shell_counts count) g)))
          (snd (for_shells chained_generate_for_shell (shell_counts count) g)))).
          \<not> null_correction ex"
    by (rule regenerate_not_null)
  then show ?thesis
    using assms unfolding chained_generate_unfold by (rule shuffled_take_not_null)
qed


lemma nl_generate_unfold:
  "fst (nl_generate count g) =
     take count (fst (rng_shuffle
       (filter (\<lambda>ex. \<not> null_correction ex)
          (fst (for_shells nl_generate_for_shell (shell_counts count) g)))
       (snd (for_shells nl_generate_for_shell (shell_counts count) g))))"
  by (simp add: nl_generate_def Let_def split_beta)

lemma nl_generate_not_null:
  assumes "ex \<in> set (fst (nl_generate count g))"
  shows "\<not> null_correction ex"
proof -
  have "\<forall>ex \<in> set (filter (\<lambda>ex. \<not> null_correction ex)
             (fst (for_shells nl_generate_for_shell (shell_counts count) g))).
          \<not> null_correction ex"
    by simp
  then show ?thesis
    using assms unfolding nl_generate_unfold by (rule shuffled_take_not_null)
qed

lemma capped_output_not_null:
  assumes "\<forall>ex \<in> set examples. \<not> null_correction ex"
    and "ex \<in> set (capped_output count examples g)"
  shows "\<not> null_correction ex"
proof -
  from assms(2) have "ex \<in> set (fst (rng_shuffle (cap_single_char (max_single_char count)
        (fst (rng_shuffle examples g))) (snd (rng_shuffle examples g))))"
    unfolding capped_output_def by (rule in_set_takeD)
  then have "ex \<in> set (cap_single_char (max_single_char count) (fst (rng_shuffle examples g)))"
    using rng_shuffle_props[of "cap_single_char (max_single_char count) (fst (rng_shuffle examples g))"
        "snd (rng_shuffle examples g)"] by blast
  then have "ex \<in> set (fst (rng_shuffle examples g))"
    using set_cap_single_char by blast
  then have "ex \<in> set examples"
    using rng_shuffle_props[of examples g] by blast
  with assms(1) show ?thesis by blast
qed

lemma filter_length_take: "length (filter P (take n xs)) \<le> length (filter P xs)"
proof -
  have "length (filter P xs) = length (filter P (take n xs @ drop n xs))" by simp
  also have "\<dots> = length (filter P (take n xs)) + length (filter P (drop n xs))"
    by (simp only: filter_append length_append)
  finally show ?thesis by simp
qed

lemma cap_single_char_count:
  "length (filter single_char_example (cap_single_char m examples)) \<le> m"
proof -
  define singles where "singles = filter single_char_example examples"
  define kept where "kept = (if length singles > m then take m singles else singles)"
  have "length kept \<le> m" by (simp add: kept_def)
  with length_filter_le[of single_char_example kept]
  have "length (filter single_char_example kept) \<le> m"
    by (rule le_trans)
  moreover have "filter single_char_example (cap_single_char m examples)
                 = filter single_char_example kept"
    by (simp add: cap_single_char_def Let_def singles_def kept_def)
  ultimately show ?thesis by simp
qed

lemma capped_output_count:
  "length (filter single_char_example (capped_output count examples g)) \<le> max_single_char count"
proof -
  define s1 where "s1 = cap_single_char (max_single_char count) (fst (rng_shuffle examples g))"
  have "length (filter single_char_example (capped_output count examples g))
        \<le> length (filter single_char_example (fst (rng_shuffle s1 (snd (rng_shuffle examples g)))))"
    unfolding capped_output_def s1_def by (rule filter_length_take)
  also have "\<dots> = length (filter single_char_example s1)"
    using rng_shuffle_props[of s1 "snd (rng_shuffle examples g)" single_char_example] by simp
  also have "\<dots> \<le> max_single_char count"
    unfolding s1_def by (rule cap_single_char_count)
  finally show ?thesis .
qed

lemma tools_generate_unfold:
  "fst (tools_generate count g)
   = capped_output count (fst (tools_pool count g)) (snd (tools_pool count g))"
  by (simp add: tools_generate_def tools_pool_def capped_output_def Let_def split_beta)

lemma tools_pool_not_null: "\<forall>ex \<in> set (fst (tools_pool count g)). \<not> null_correction ex"
  unfolding tools_pool_def by (rule regenerate_not_null) simp

lemma single_generate_unfold:
  "fst (single_generate templates count g)
   = capped_output count (fst (single_pool templates count g)) (snd (single_pool templates count g))"
  by (simp add: single_generate_def single_pool_def capped_output_def Let_def split_beta)

lemma single_pool_not_null:
  "\<forall>ex \<in> set (fst (single_pool templates count g)). \<not> null_correction ex"
  unfolding single_pool_def by (rule regenerate_not_null) simp


section \<open>The wrong-template branch of the synthesizers\<close>

lemma rng_choice_in_set:
  assumes "xs \<noteq> []"
  shows "fst (rng_choice xs g) \<in> set xs"
proof -
  have "fst (next_draw g) mod length xs < length xs"
    using assms by simp
  then show ?thesis
    by (simp add: rng_choice_def randbelow_def split_beta)
qed


lemma tools_create_wrong_template:
  assumes "extract_variables (entry_correct cmd) g = (variables, g1)"
    and "rng_random g1 = (r, g2)"
    and "rng_choice (entry_errors cmd) g2 = (e, g3)"
    and "entry_correct cmd \<noteq> []" "entry_errors cmd \<noteq> []" "r < 7 / 10"
    and "\<not> is_single_char_correction (expand_template e variables)
             (expand_template (entry_correct cmd) variables)"
    and "str_strip (expand_template e variables)
           \<noteq> str_strip (expand_template (entry_correct cmd) variables)"
  shows "tools_create_example shell category tool_name cmd g =
           (Some \<lparr>ex_shell = shell, incorrect_command = expand_template e variables,
                   correct_command = expand_template (entry_correct cmd) variables,
                   ex_category = ''tools_'' @ category, ex_error_type = ''tool_specific'',
                   ex_source = ''tools_pattern'', ex_metadata = [(''tool'', tool_name)]\<rparr>, g3)"
  using assms
  by (simp add: tools_create_example_def tools_incorrect_candidate_def Let_def numeral_3_eq_3)

lemma single_create_wrong_template:
  assumes "extract_variables (entry_correct entry) g = (variables, g1)"
    and "single_select_error_type g1 = (error_type, g2)"
    and "rng_random g2 = (r, g3)"
    and "rng_choice (entry_errors entry) g3 = (e, g4)"
    and "entry_correct entry \<noteq> []" "entry_errors entry \<noteq> []" "r < 6 / 10"
    and "\<not> is_single_char_correction (expand_template e variables)
             (expand_template (entry_correct entry) variables)"
    and "str_strip (expand_template e variables)
           \<noteq> str_strip (expand_template (entry_correct entry) variables)"
  shows "create_example_from_entry shell category entry g =
           (Some \<lparr>ex_shell = shell, incorrect_command = expand_template e variables,
                   correct_command = expand_template (entry_correct entry) variables,
                   ex_category = category, ex_error_type = error_type,
                   ex_source = ''template'',
                   ex_metadata = [(''template'', entry_correct entry)]\<rparr>, g4)"
proof -
  from assms(9) have ne: "expand_template e variables \<noteq> expand_template (entry_correct entry) variables"
    by auto
  show ?thesis
    using assms ne
    by (simp add: create_example_from_entry_def generate_incorrect_def Let_def numeral_3_eq_3)
qed


section \<open>Runs of the generators\<close>

subsection \<open>The chained generator\<close>

text \<open>
  With the draws \<open>redirection_draws\<close> one round of the chained generator selects the error
  type \<open>redirection\<close>, the first bash redirection pattern, the file name \<open>file.txt\<close> and the
  wrong template \<open>command > {file} 2>1\<close>, which differs from the correct command by the
  one character \<open>&\<close>.
\<close>

lemma findall_redirection: "findall_placeholders ''command > {file} 2>&1'' = [''file'']"
  by (simp add: isword_def Let_def)

lemma extract_variables_redirection:
  "extract_variables ''command > {file} 2>&1'' (0 # g) = ([(''file'', ''file.txt'')], g)"
  unfolding extract_variables_def findall_redirection
  by (simp add: get_random_variable_def COMMON_VARIABLES_def rng_choice_def randbelow_def
      next_draw_def)

lemma create_redirection_example:
  "create_example_from_pattern ''bash'' redirection_pattern ''redirection'' (0 # 0 # Suc 0 # g)
     = (Some redirection_example, g)"
  by (simp add: create_example_from_pattern_def redirection_pattern_def
      extract_variables_redirection chained_incorrect_candidate_def redirection_example_def
      rng_random_def rng_choice_def randbelow_def next_draw_def str_replace_def str_strip_def
      isspace_def whitespace_chars_def)

lemma select_redirection:
  "chained_select_error_type (6755399441055744 # g) = (''redirection'', g)"
  by (simp add: chained_select_error_type_def chained_ERROR_DISTRIBUTION_def rng_choices_def
      rng_random_def next_draw_def bisect_def)

lemma redirection_first:
  "dict_get REDIRECTION_PATTERNS ''bash'' d
     = redirection_pattern # tl (dict_get REDIRECTION_PATTERNS ''bash'' d)"
  by (simp add: dict_get_def REDIRECTION_PATTERNS_def redirection_pattern_def)

lemma chained_iteration_redirection:
  "redir = redirection_pattern # rest \<Longrightarrow>
   chained_iteration ''bash'' pp cp redir (6755399441055744 # 0 # 0 # 0 # Suc 0 # g)
     = (Some redirection_example, g)"
  by (simp add: chained_iteration_def select_redirection rng_choice_def randbelow_def
      next_draw_def create_redirection_example)

lemma chained_generate_for_shell_two:
  "chained_generate_for_shell ''bash'' 2
     (6755399441055744 # 0 # 0 # 0 # Suc 0 # 6755399441055744 # 0 # 0 # 0 # Suc 0 # g)
     = ([redirection_example, redirection_example], g)"
  unfolding chained_generate_for_shell_def Let_def
  by (subst redirection_first) (simp add: numeral_2_eq_2 chained_iteration_redirection)

lemma chained_generate_for_shell_none: "chained_generate_for_shell s 0 g = ([], g)"
  by (simp add: chained_generate_for_shell_def)

lemma shell_counts_two:
  "shell_counts 2 = [(''bash'', 2), (''zsh'', 0), (''powershell'', 0), (''cmd'', 0),
     (''fish'', 0), (''tcsh'', 0)]"
  by (simp add: shell_counts_def SHELL_WEIGHTS_def)

lemma redirection_example_not_null: "\<not> null_correction redirection_example"
  by (simp add: null_correction_def redirection_example_def str_strip_def isspace_def
      whitespace_chars_def)

lemma redirection_example_single_char: "single_char_example redirection_example"
  unfolding single_char_example_def redirection_example_def by code_simp

lemma chained_generate_two:
  "fst (chained_generate 2 (redirection_draws @ redirection_draws @ [0]))
     = [redirection_example, redirection_example]"
  by (simp add: redirection_draws_def chained_generate_def shell_counts_two
      chained_generate_for_shell_two chained_generate_for_shell_none
      redirection_example_not_null numeral_3_eq_3 rng_shuffle_def randbelow_def next_draw_def)


subsection \<open>The tools generator\<close>

text \<open>
  With three draws 0 the tools generator, asked for one example, takes the first command
  of the catalog, \<open>git status\<close>, and its first wrong template.
\<close>

lemma shell_counts_one:
  "shell_counts (Suc 0) = [(''bash'', Suc 0), (''zsh'', 0), (''powershell'', 0), (''cmd'', 0),
     (''fish'', 0), (''tcsh'', 0)]"
  by (simp add: shell_counts_def SHELL_WEIGHTS_def)

lemma max_single_char_one: "max_single_char (Suc 0) = 0"
proof -
  have "\<lfloor>of_nat (Suc 0) * (5 / 100 :: rat)\<rfloor> = 0"
    by (rule floor_unique) simp_all
  then show ?thesis by (simp add: max_single_char_def)
qed

lemma all_tools_first:
  "all_tools = (''version_control'', ''git'',
      \<lparr>entry_correct = ''git status'',
       entry_errors = [''gti status'', ''git stauts'', ''git stats'']\<rparr>) # tl all_tools"
proof -
  have "hd all_tools = (''version_control'', ''git'',
      \<lparr>entry_correct = ''git status'',
       entry_errors = [''gti status'', ''git stauts'', ''git stats'']\<rparr>)"
    by code_simp
  moreover have "all_tools \<noteq> []" by code_simp
  ultimately show ?thesis by (metis list.collapse)
qed

lemma gti_not_single_char: "\<not> is_single_char_correction ''gti status'' ''git status''"
  by code_simp

lemma tools_create_git:
  "tools_create_example ''bash'' ''version_control'' ''git''
     \<lparr>entry_correct = ''git status'',
      entry_errors = [''gti status'', ''git stauts'', ''git stats'']\<rparr> (0 # 0 # g)
   = (Some git_example, g)"
proof -
  have ev: "extract_variables (entry_correct \<lparr>entry_correct = ''git status'',
      entry_errors = [''gti status'', ''git stauts'', ''git stats'']\<rparr>) (0 # 0 # g) = ([], 0 # 0 # g)"
    by (simp add: extract_variables_def)
  have r: "rng_random (0 # 0 # g) = (0, 0 # g)"
    by (simp add: rng_random_def next_draw_def)
  have c: "rng_choice (entry_errors \<lparr>entry_correct = ''git status'',
      entry_errors = [''gti status'', ''git stauts'', ''git stats'']\<rparr>) (0 # g) = (''gti status'', g)"
    by (simp add: rng_choice_def randbelow_def next_draw_def)
  show ?thesis
    using tools_create_wrong_template[OF ev r c, of "''bash''" "''version_control''" "''git''"]
    by (simp add: gti_not_single_char git_example_def str_strip_def isspace_def whitespace_chars_def)
qed

lemma tools_iteration_git: "tools_iteration ''bash'' (0 # 0 # 0 # g) = (Some git_example, g)"
  unfolding tools_iteration_def
  by (subst all_tools_first) (simp add: rng_choice_def randbelow_def next_draw_def tools_create_git)

lemma git_example_props: "\<not> null_correction git_example" "\<not> single_char_example git_example"
  by (simp_all add: null_correction_def single_char_example_def git_example_def
      gti_not_single_char str_strip_def isspace_def whitespace_chars_def)

lemma tools_generate_one: "fst (tools_generate 1 [0, 0, 0]) = [git_example]"
  by (simp add: tools_generate_def shell_counts_one tools_iteration_git git_example_props
      numeral_3_eq_3 rng_shuffle_def cap_single_char_def max_single_char_one)


subsection \<open>The single-command generator\<close>

text \<open>
  With the templates \<open>sample_templates\<close> and five draws 0 the single-command generator,
  asked for one example, resolves \<open>{path}\<close> to \<open>mydir\<close>, selects the error type \<open>typo\<close>
  and takes the wrong template \<open>chdir {path}\<close>.
\<close>

lemma findall_cd: "findall_placeholders ''cd {path}'' = [''path'']"
  by (simp add: isword_def Let_def)

lemma extract_variables_cd:
  "extract_variables ''cd {path}'' (0 # g) = ([(''path'', ''mydir'')], g)"
  unfolding extract_variables_def findall_cd
  by (simp add: get_random_variable_def COMMON_VARIABLES_def rng_choice_def randbelow_def
      next_draw_def)


lemma chdir_not_single_char: "\<not> is_single_char_correction ''chdir mydir'' ''cd mydir''"
  by code_simp

lemma select_typo: "single_select_error_type (0 # g) = (''typo'', g)"
  by (simp add: single_select_error_type_def single_ERROR_DISTRIBUTION_def rng_choices_def
      rng_random_def next_draw_def bisect_def)

lemma single_create_cd:
  "create_example_from_entry ''bash'' ''navigation''
     \<lparr>entry_correct = ''cd {path}'', entry_errors = [''chdir {path}'']\<rparr> (0 # 0 # 0 # 0 # g)
   = (Some cd_example, g)"
proof -
  have ev: "extract_variables (entry_correct \<lparr>entry_correct = ''cd {path}'',
      entry_errors = [''chdir {path}'']\<rparr>) (0 # 0 # 0 # 0 # g)
      = ([(''path'', ''mydir'')], 0 # 0 # 0 # g)"
    by (simp add: extract_variables_cd)
  have s: "single_select_error_type (0 # 0 # 0 # g) = (''typo'', 0 # 0 # g)"
    by (rule select_typo)
  have r: "rng_random (0 # 0 # g) = (0, 0 # g)"
    by (simp add: rng_random_def next_draw_def)
  have c: "rng_choice (entry_errors \<lparr>entry_correct = ''cd {path}'',
      entry_errors = [''chdir {path}'']\<rparr>) (0 # g) = (''chdir {path}'', g)"
    by (simp add: rng_choice_def randbelow_def next_draw_def)
  show ?thesis
    using single_create_wrong_template[OF ev s r c, of "''bash''" "''navigation''"]
    by (simp add: str_replace_def chdir_not_single_char cd_example_def str_strip_def
        isspace_def whitespace_chars_def)
qed

lemma cd_example_props: "\<not> null_correction cd_example" "\<not> single_char_example cd_example"
  by (simp_all add: null_correction_def single_char_example_def cd_example_def
      chdir_not_single_char str_strip_def isspace_def whitespace_chars_def)

lemma single_generate_for_shell_cd:
  "single_generate_for_shell sample_templates ''bash'' (Suc 0) (0 # 0 # 0 # 0 # 0 # g)
     = ([cd_example], g)"
  by (simp add: single_generate_for_shell_def sample_templates_def dict_get_def CATEGORIES_def
      rng_choice_def randbelow_def next_draw_def single_create_cd)

lemma single_generate_for_shell_none:
  "single_generate_for_shell templates shell 0 g = ([], g)"
  by (simp add: single_generate_for_shell_def Let_def)

lemma single_generate_one:
  "fst (single_generate sample_templates 1 [0, 0, 0, 0, 0]) = [cd_example]"
proof -
  have m: "map_of sample_templates ''bash'' \<noteq> None" "map_of sample_templates ''zsh'' = None"
    "map_of sample_templates ''powershell'' = None" "map_of sample_templates ''cmd'' = None"
    "map_of sample_templates ''fish'' = None" "map_of sample_templates ''tcsh'' = None"
    by (simp_all add: sample_templates_def)
  show ?thesis
    by (simp add: single_generate_def shell_counts_one m single_generate_for_shell_cd
        cd_example_props numeral_3_eq_3 rng_shuffle_def cap_single_char_def max_single_char_one)
qed


subsection \<open>The natural-language generator\<close>

lemma nl_bash_imperative:
  "dict_get (dict_get NL_PATTERNS ''bash'' d) ''imperative'' []
     = (''list all files'', ''ls -la'')
         # tl (dict_get (dict_get NL_PATTERNS ''bash'' d) ''imperative'' [])"
  by (simp add: dict_get_def NL_PATTERNS_def)

lemma select_imperative: "select_nl_type (0 # g) = (''imperative'', g)"
  by (simp add: select_nl_type_def NL_TYPE_DISTRIBUTION_def rng_choices_def
      rng_random_def next_draw_def bisect_def)

lemma random_three_quarters: "rng_random (6755399441055744 # g) = (3 / 4, g)"
  by (simp add: rng_random_def next_draw_def)

lemma nl_iteration_list_files:
  assumes "dict_get patterns ''imperative'' [] = (''list all files'', ''ls -la'') # rest"
  shows "nl_iteration ''bash'' patterns (list_files_draws @ g) = (Some list_files_example, g)"
  using assms
  by (simp add: nl_iteration_def list_files_draws_def select_imperative random_three_quarters
      rng_choice_def randbelow_def next_draw_def extract_variables_def add_nl_variation_def
      nl_variations_def list_files_example_def isword_def Let_def)

lemma nl_generate_for_shell_one:
  "nl_generate_for_shell ''bash'' (Suc 0) (list_files_draws @ g) = ([list_files_example], g)"
  unfolding nl_generate_for_shell_def Let_def
  by (simp add: nl_iteration_list_files[OF nl_bash_imperative])

lemma nl_generate_for_shell_none: "nl_generate_for_shell shell 0 g = ([], g)"
  by (simp add: nl_generate_for_shell_def)

lemma list_files_example_not_null: "\<not> null_correction list_files_example"
  by (simp add: null_correction_def list_files_example_def str_strip_def isspace_def
      whitespace_chars_def)

lemma nl_generate_one: "fst (nl_generate 1 list_files_draws) = [list_files_example]"
  using nl_generate_for_shell_one[of "[]"]
  by (simp add: nl_generate_def shell_counts_one nl_generate_for_shell_none
      list_files_example_not_null rng_shuffle_def)


section \<open>No null correction in the output of \<open>generate\<close>\<close>

text \<open>
  Claim C1.  For each of the four generators (single-command, chained, natural-language,
  tools), every target count, every state of the random number generator and, for the
  single-command generator, every template catalog, each example \<open>ex\<close> of the list returned
  by \<open>generate(count)\<close> satisfies
  \<open>ex.incorrect_command.strip() != ex.correct_command.strip()\<close>.
\<close>

theorem no_null_corrections:
  "(\<forall>ex \<in> set (fst (single_generate templates count g)). \<not> null_correction ex) \<and>
   (\<forall>ex \<in> set (fst (chained_generate count g)). \<not> null_correction ex) \<and>
   (\<forall>ex \<in> set (fst (nl_generate count g)). \<not> null_correction ex) \<and>
   (\<forall>ex \<in> set (fst (tools_generate count g)). \<not> null_correction ex)"
proof (intro conjI ballI)
  fix ex assume "ex \<in> set (fst (single_generate templates count g))"
  then show "\<not> null_correction ex"
    unfolding single_generate_unfold
    using single_pool_not_null capped_output_not_null by blast
next
  fix ex assume "ex \<in> set (fst (chained_generate count g))"
  then show "\<not> null_correction ex" by (rule chained_generate_not_null)
next
  fix ex assume "ex \<in> set (fst (nl_generate count g))"
  then show "\<not> null_correction ex" by (rule nl_generate_not_null)
next
  fix ex assume "ex \<in> set (fst (tools_generate count g))"
  then show "\<not> null_correction ex"
    unfolding tools_generate_unfold
    using tools_pool_not_null capped_output_not_null by blast
qed

theorem no_null_corrections_witness:
  "fst (single_generate sample_templates 1 [0, 0, 0, 0, 0]) = [cd_example] \<and>
   fst (chained_generate 2 (redirection_draws @ redirection_draws @ [0]))
     = [redirection_example, redirection_example] \<and>
   fst (nl_generate 1 list_files_draws) = [list_files_example] \<and>
   fst (tools_generate 1 [0, 0, 0]) = [git_example] \<and>
   str_strip (incorrect_command cd_example) \<noteq> str_strip (correct_command cd_example) \<and>
   str_strip (incorrect_command redirection_example)
     \<noteq> str_strip (correct_command redirection_example) \<and>
   str_strip (incorrect_command list_files_example)
     \<noteq> str_strip (correct_command list_files_example) \<and>
   str_strip (incorrect_command git_example) \<noteq> str_strip (correct_command git_example)"
  using no_null_corrections[of sample_templates 1 "[0, 0, 0, 0, 0]", THEN conjunct1]
    no_null_corrections[of sample_templates 2 "redirection_draws @ redirection_draws @ [0]",
      THEN conjunct2, THEN conjunct1]
    no_null_corrections[of sample_templates 1 list_files_draws,
      THEN conjunct2, THEN conjunct2, THEN conjunct1]
    no_null_corrections[of sample_templates 1 "[0, 0, 0]",
      THEN conjunct2, THEN conjunct2, THEN conjunct2]
  unfolding chained_generate_two single_generate_one nl_generate_one tools_generate_one
  by (simp add: null_correction_def)


section \<open>The cap on single-character corrections\<close>

text \<open>
  Claim C2, as the code has it.  The single-command and the tools generator return, for
  every target count \<open>N\<close>, at most \<open>int(N * 0.05)\<close> examples that are single-character
  corrections, and \<open>int(N * 0.05)\<close>, the floor of the product, is at most
  \<open>ceil(N * 0.05)\<close>.
\<close>

theorem single_char_cap:
  "length (filter single_char_example (fst (single_generate templates count g)))
     \<le> max_single_char count \<and>
   length (filter single_char_example (fst (tools_generate count g))) \<le> max_single_char count \<and>
   int (max_single_char count) \<le> \<lceil>of_nat count * (5 / 100 :: rat)\<rceil>"
proof (intro conjI)
  show "length (filter single_char_example (fst (single_generate templates count g)))
     \<le> max_single_char count"
    unfolding single_generate_unfold by (rule capped_output_count)
  show "length (filter single_char_example (fst (tools_generate count g))) \<le> max_single_char count"
    unfolding tools_generate_unfold by (rule capped_output_count)
  have "\<lfloor>of_nat count * (5 / 100 :: rat)\<rfloor> \<le> \<lceil>of_nat count * (5 / 100 :: rat)\<rceil>"
    by (rule floor_le_ceiling)
  moreover have "0 \<le> \<lfloor>of_nat count * (5 / 100 :: rat)\<rfloor>"
    by simp
  ultimately show "int (max_single_char count) \<le> \<lceil>of_nat count * (5 / 100 :: rat)\<rceil>"
    by (simp add: max_single_char_def)
qed

text \<open>
  The claim as the specification states it, with the cap applied by every segment
  generator, fails for the chained generator, whose \<open>generate\<close> has no cap: with target
  count 2 it returns two single-character corrections, where \<open>ceil(2 * 0.05) = 1\<close>.
\<close>

theorem single_char_cap_counterexample:
  "length (filter single_char_example
     (fst (chained_generate 2 (redirection_draws @ redirection_draws @ [0])))) = 2 \<and>
   \<lceil>of_nat 2 * (5 / 100 :: rat)\<rceil> = 1"
proof -
  have "\<lceil>of_nat 2 * (5 / 100 :: rat)\<rceil> = 1"
    by (rule ceiling_unique) simp_all
  then show ?thesis
    unfolding chained_generate_two
    by (simp add: redirection_example_single_char)
qed


section \<open>The threshold of the wrong-template branch\<close>





section \<open>One binding for both sides\<close>




section \<open>Placeholders of the wrong template that the correct template lacks\<close>

text \<open>
  The first \<open>awk\<close> entry of the tools catalog has the wrong template
  \<open>awk '{{print}}' {file}\<close>, in which the regular expression of the resolver finds the
  placeholder \<open>{print}\<close>; the correct template \<open>awk '{{print $1}}' {file}\<close> has only
  \<open>{file}\<close>.
\<close>

lemma awk_entry_in_catalog: "(''text'', ''awk'', awk_entry) \<in> set all_tools"
  by code_simp








section \<open>Determinism\<close>




end
